theory Spec2Isabelle
  imports Main "HOL-Library.Sublist"
begin

section \<open>create-lithia-app: the scaffolding run of \<^verbatim>\<open>src/cli/index.ts\<close>\<close>

text \<open>
  The program is one asynchronous function, \<^verbatim>\<open>run\<close>, that talks to the user, to the
  filesystem and to external processes. The embedding is a state-passing one: the state
  holds the filesystem and the trace of every outward call in the order the source makes
  it; the environment holds everything the run reads from outside (the probes' results,
  the user's responses, what an external process does to the filesystem, the JSON parser).
  A step returns a value, or ends the process (\<^verbatim>\<open>process.exit\<close>), or rejects with an
  error that propagates out of \<^verbatim>\<open>run\<close>.
\<close>

subsection \<open>Strings and paths\<close>

text \<open>
  Paths are absolute POSIX paths, held as the list of their components
  (\<^verbatim>\<open>/home/u/app\<close> is \<open>[''home'', ''u'', ''app'']\<close>).
\<close>

type_synonym path = "string list"

fun split_on :: "char \<Rightarrow> string \<Rightarrow> string list" where
  "split_on c [] = [[]]"
| "split_on c (x # xs) =
     (if x = c then [] # split_on c xs
      else (case split_on c xs of [] \<Rightarrow> [[x]] | y # ys \<Rightarrow> (x # y) # ys))"

fun norm_segments :: "path \<Rightarrow> string list \<Rightarrow> path" where
  "norm_segments acc [] = acc"
| "norm_segments acc (s # ss) =
     (if s = [] \<or> s = ''.'' then norm_segments acc ss
      else if s = ''..'' then norm_segments (butlast acc) ss
      else norm_segments (acc @ [s]) ss)"

text \<open>
  \<^verbatim>\<open>path.resolve(base, seg)\<close> for an absolute \<open>base\<close>: an absolute \<open>seg\<close> replaces the
  base, a relative one is appended; empty and \<^verbatim>\<open>.\<close> components vanish, \<^verbatim>\<open>..\<close> steps up.
\<close>

definition path_resolve :: "path \<Rightarrow> string \<Rightarrow> path" where
  "path_resolve base seg =
     (case seg of
        [] \<Rightarrow> base
      | c # _ \<Rightarrow> if c = CHR ''/'' then norm_segments [] (split_on CHR ''/'' seg)
                 else norm_segments base (split_on CHR ''/'' seg))"

text \<open>
  A HOL string holds a JavaScript string in UTF-8, one \<open>char\<close> per byte, the form in
  which \<^verbatim>\<open>readFile(p, 'utf-8')\<close> and \<^verbatim>\<open>writeFile\<close> have it on disk.

  The code points that \<^verbatim>\<open>String.prototype.trim\<close> strips, each in its UTF-8 encoding:
  the WhiteSpace of ECMAScript (U+0009, U+000B, U+000C, U+FEFF and the space separators
  U+0020, U+00A0, U+1680, U+2000 to U+200A, U+202F, U+205F, U+3000) and its
  LineTerminators (U+000A, U+000D, U+2028, U+2029).
\<close>

definition white_space :: "string list" where
  "white_space =
     [[CHR 0x09], [CHR 0x0A], [CHR 0x0B], [CHR 0x0C], [CHR 0x0D], [CHR 0x20],
      [CHR 0xC2, CHR 0xA0],
      [CHR 0xE1, CHR 0x9A, CHR 0x80],
      [CHR 0xE2, CHR 0x80, CHR 0x80], [CHR 0xE2, CHR 0x80, CHR 0x81],
      [CHR 0xE2, CHR 0x80, CHR 0x82], [CHR 0xE2, CHR 0x80, CHR 0x83],
      [CHR 0xE2, CHR 0x80, CHR 0x84], [CHR 0xE2, CHR 0x80, CHR 0x85],
      [CHR 0xE2, CHR 0x80, CHR 0x86], [CHR 0xE2, CHR 0x80, CHR 0x87],
      [CHR 0xE2, CHR 0x80, CHR 0x88], [CHR 0xE2, CHR 0x80, CHR 0x89],
      [CHR 0xE2, CHR 0x80, CHR 0x8A],
      [CHR 0xE2, CHR 0x80, CHR 0xA8], [CHR 0xE2, CHR 0x80, CHR 0xA9],
      [CHR 0xE2, CHR 0x80, CHR 0xAF],
      [CHR 0xE2, CHR 0x81, CHR 0x9F],
      [CHR 0xE3, CHR 0x80, CHR 0x80],
      [CHR 0xEF, CHR 0xBB, CHR 0xBF]]"

text \<open>Drops from the front of a string every leading occurrence of one of \<open>us\<close>.\<close>

fun strip_leading :: "string list \<Rightarrow> string \<Rightarrow> string" where
  "strip_leading us [] = []"
| "strip_leading us (c # cs) =
     (case find (\<lambda>u. prefix u (c # cs)) us of
        None \<Rightarrow> c # cs
      | Some u \<Rightarrow> strip_leading us (drop (length u - 1) cs))"

text \<open>
  \<^verbatim>\<open>String.prototype.trim\<close>: the white space is stripped from the front, and from the
  end by stripping the reversed encodings from the front of the reversed string.
\<close>

definition trim :: "string \<Rightarrow> string" where
  "trim s = rev (strip_leading (map rev white_space) (rev (strip_leading white_space s)))"

text \<open>A template literal renders an undefined value as the text \<^verbatim>\<open>undefined\<close>.\<close>

definition js_text :: "string option \<Rightarrow> string" where
  "js_text v = (case v of None \<Rightarrow> ''undefined'' | Some s \<Rightarrow> s)"

subsection \<open>The template catalog\<close>

record ProjectTemplate =
  name :: string
  branch :: string
  url :: string
  description :: string

definition templates :: "ProjectTemplate list" where
  "templates =
     [\<lparr>name = ''default'', branch = ''main'',
       url = ''https://github.com/lithiajs/lithia-default-app-template.git'',
       description = ''Setup a Lithia.js app with no presets''\<rparr>,
      \<lparr>name = ''with-drizzle'', branch = ''main'',
       url = ''https://github.com/lithiajs/lithia-with-drizzle-template.git'',
       description = ''Setup a Lithia.js app using Drizzle ORM''\<rparr>,
      \<lparr>name = ''with-prisma'', branch = ''main'',
       url = ''https://github.com/lithiajs/lithia-with-prisma-template.git'',
       description = ''Setup a Lithia.js app using Prisma ORM''\<rparr>]"

subsection \<open>JSON values and the manifest object\<close>

text \<open>
  A parsed JSON value. An object is the list of its own properties in the order
  JavaScript enumerates them; a number is kept as the text that \<^verbatim>\<open>JSON.stringify\<close>
  prints for it, since no step of the run computes with numbers.
\<close>

datatype json =
    JNull
  | JBool bool
  | JNumber string
  | JString string
  | JArray "json list"
  | JObject "(string \<times> json) list"

text \<open>
  \<^verbatim>\<open>o[k] = v\<close> on an ordinary object: an own property keeps its place and takes the new
  value, a new property goes to the end.
\<close>

fun set_prop :: "string \<Rightarrow> json \<Rightarrow> (string \<times> json) list \<Rightarrow> (string \<times> json) list" where
  "set_prop k v [] = [(k, v)]"
| "set_prop k v (p # ps) = (if fst p = k then (k, v) # ps else p # set_prop k v ps)"

text \<open>\<^verbatim>\<open>delete o[k]\<close>.\<close>

definition delete_prop :: "string \<Rightarrow> (string \<times> json) list \<Rightarrow> (string \<times> json) list" where
  "delete_prop k ps = filter (\<lambda>p. fst p \<noteq> k) ps"

text \<open>\<^verbatim>\<open>o[k]\<close>: the own property's value, or undefined.\<close>

definition get_prop :: "string \<Rightarrow> (string \<times> json) list \<Rightarrow> json option" where
  "get_prop k ps = map_of ps k"

subsection \<open>\<^verbatim>\<open>JSON.stringify(value, null, gap)\<close>\<close>

definition hex_digit :: "nat \<Rightarrow> char" where
  "hex_digit n = (''0123456789abcdef'') ! (n mod 16)"

text \<open>The escapes of \<^verbatim>\<open>QuoteJSONString\<close> for one character.\<close>

definition quote_char :: "char \<Rightarrow> string" where
  "quote_char c =
     (if c = CHR 0x22 then [CHR 0x5C, CHR 0x22]
      else if c = CHR 0x5C then [CHR 0x5C, CHR 0x5C]
      else if c = CHR 0x08 then [CHR 0x5C, CHR ''b'']
      else if c = CHR 0x09 then [CHR 0x5C, CHR ''t'']
      else if c = CHR 0x0A then [CHR 0x5C, CHR ''n'']
      else if c = CHR 0x0C then [CHR 0x5C, CHR ''f'']
      else if c = CHR 0x0D then [CHR 0x5C, CHR ''r'']
      else if of_char c < (32 :: nat)
        then [CHR 0x5C, CHR ''u'', CHR ''0'', CHR ''0'',
              hex_digit (of_char c div 16), hex_digit (of_char c)]
      else [c])"

definition quote :: "string \<Rightarrow> string" where
  "quote s = CHR 0x22 # concat (map quote_char s) @ [CHR 0x22]"

fun join :: "string \<Rightarrow> string list \<Rightarrow> string" where
  "join sep [] = []"
| "join sep [x] = x"
| "join sep (x # y # ys) = x @ sep @ join sep (y # ys)"

text \<open>
  \<^verbatim>\<open>SerializeJSONProperty\<close>: \<open>gap\<close> is the indentation unit, \<open>ind\<close> the current
  indentation. With an empty gap the output has no line breaks and no space after a colon.
\<close>

fun serialize :: "string \<Rightarrow> string \<Rightarrow> json \<Rightarrow> string" where
  "serialize gap ind JNull = ''null''"
| "serialize gap ind (JBool b) = (if b then ''true'' else ''false'')"
| "serialize gap ind (JNumber t) = t"
| "serialize gap ind (JString s) = quote s"
| "serialize gap ind (JArray xs) =
     (if xs = [] then ''[]''
      else if gap = [] then ''['' @ join '','' (map (serialize gap (ind @ gap)) xs) @ '']''
      else ''['' @ [CHR 0x0A] @ (ind @ gap)
           @ join ('','' @ [CHR 0x0A] @ (ind @ gap)) (map (serialize gap (ind @ gap)) xs)
           @ [CHR 0x0A] @ ind @ '']'')"
| "serialize gap ind (JObject ps) =
     (if ps = [] then ''{}''
      else if gap = []
        then ''{'' @ join '','' (map (\<lambda>p. quote (fst p) @ '':''
                                       @ serialize gap (ind @ gap) (snd p)) ps) @ ''}''
      else ''{'' @ [CHR 0x0A] @ (ind @ gap)
           @ join ('','' @ [CHR 0x0A] @ (ind @ gap))
               (map (\<lambda>p. quote (fst p) @ '': '' @ serialize gap (ind @ gap) (snd p)) ps)
           @ [CHR 0x0A] @ ind @ ''}'')"

text \<open>A numeric \<open>space\<close> argument is a gap of that many spaces, ten at most.\<close>

definition JSON_stringify :: "json \<Rightarrow> nat \<Rightarrow> string" where
  "JSON_stringify v space = serialize (replicate (min 10 space) CHR '' '') [] v"

subsection \<open>The filesystem, errors and the trace\<close>

datatype node = Dir | File string

type_synonym filesystem = "path \<Rightarrow> node option"

datatype error =
    ENOENT path
  | EISDIR path
  | ENOTDIR path
  | EEXIST path
  | ExecError string nat
  | SyntaxError
  | TypeError

text \<open>One event per outward call, in the order the run makes them.\<close>

datatype event =
    PingVersion string
  | Ask string
  | Info string
  | Ready string
  | ConsoleLog string
  | Stat path
  | Rm path
  | Mkdir path
  | Exec string path
  | ReadFile path
  | WriteFile path string
  | StepBegin string
  | StepEnd string bool
  | ProcessExit nat

record world =
  fs :: filesystem
  trace :: "event list"

text \<open>
  A step either yields a value, or the process has exited with a status
  (\<^verbatim>\<open>process.exit\<close>), or the awaited promise rejected and the error propagates.
\<close>

datatype 'a result = Done 'a | Exited nat | Rejected error

type_synonym 'a step = "world \<Rightarrow> 'a result \<times> world"

definition emit :: "event \<Rightarrow> world \<Rightarrow> world" where
  "emit e w = w\<lparr>trace := trace w @ [e]\<rparr>"

definition ret :: "'a \<Rightarrow> 'a step" where
  "ret x w = (Done x, w)"

definition reject :: "error \<Rightarrow> 'a step" where
  "reject e w = (Rejected e, w)"

text \<open>\<^verbatim>\<open>await m; f\<close>: what follows runs only when \<open>m\<close> yields a value.\<close>

definition seq :: "'a step \<Rightarrow> ('a \<Rightarrow> 'b step) \<Rightarrow> 'b step" where
  "seq m f w =
     (case m w of
        (Done x, w') \<Rightarrow> f x w'
      | (Exited n, w') \<Rightarrow> (Exited n, w')
      | (Rejected e, w') \<Rightarrow> (Rejected e, w'))"

definition info :: "string \<Rightarrow> unit step" where
  "info msg w = (Done (), emit (Info msg) w)"

definition ready :: "string \<Rightarrow> unit step" where
  "ready msg w = (Done (), emit (Ready msg) w)"

definition console_log :: "string \<Rightarrow> unit step" where
  "console_log msg w = (Done (), emit (ConsoleLog msg) w)"

definition process_exit :: "nat \<Rightarrow> 'a step" where
  "process_exit n w = (Exited n, emit (ProcessExit n) w)"

subsection \<open>\<^verbatim>\<open>node:fs/promises\<close>\<close>

text \<open>\<^verbatim>\<open>stat(p).catch(() => null)\<close>: the entry at \<open>p\<close>, file or directory, or null.\<close>

definition stat_or_null :: "path \<Rightarrow> node option step" where
  "stat_or_null p w = (Done (fs w p), emit (Stat p) w)"

text \<open>
  \<^verbatim>\<open>rm(p, { recursive: true })\<close>, without \<^verbatim>\<open>force\<close>: a missing path rejects with
  ENOENT; otherwise \<open>p\<close> and everything below it is gone.
\<close>

definition rm_recursive :: "path \<Rightarrow> unit step" where
  "rm_recursive p w =
     (case fs w p of
        None \<Rightarrow> (Rejected (ENOENT p), emit (Rm p) w)
      | Some _ \<Rightarrow> (Done (), (emit (Rm p) w)\<lparr>fs := (\<lambda>q. if prefix p q then None else fs w q)\<rparr>))"

definition is_file :: "node option \<Rightarrow> bool" where
  "is_file n = (case n of Some (File _) \<Rightarrow> True | _ \<Rightarrow> False)"

text \<open>
  \<^verbatim>\<open>mkdir(p, { recursive: true })\<close>: creates \<open>p\<close> and its missing ancestors, accepts
  an existing directory, and rejects when \<open>p\<close> or an ancestor is a file.
\<close>

definition mkdir_recursive :: "path \<Rightarrow> unit step" where
  "mkdir_recursive p w =
     (case find (\<lambda>q. is_file (fs w q)) (prefixes p) of
        Some q \<Rightarrow> (Rejected (if q = p then EEXIST p else ENOTDIR p), emit (Mkdir p) w)
      | None \<Rightarrow>
          (Done (), (emit (Mkdir p) w)
             \<lparr>fs := (\<lambda>q. if prefix q p \<and> fs w q = None then Some Dir else fs w q)\<rparr>))"

text \<open>\<^verbatim>\<open>readFile(p, 'utf-8')\<close>.\<close>

definition readFile :: "path \<Rightarrow> string step" where
  "readFile p w =
     (case fs w p of
        None \<Rightarrow> (Rejected (ENOENT p), emit (ReadFile p) w)
      | Some Dir \<Rightarrow> (Rejected (EISDIR p), emit (ReadFile p) w)
      | Some (File c) \<Rightarrow> (Done c, emit (ReadFile p) w))"

text \<open>\<^verbatim>\<open>writeFile(p, c)\<close>: creates or replaces the file in an existing directory.\<close>

definition writeFile :: "path \<Rightarrow> string \<Rightarrow> unit step" where
  "writeFile p c w =
     (if p = [] \<or> fs w p = Some Dir then (Rejected (EISDIR p), emit (WriteFile p c) w)
      else (case fs w (butlast p) of
              None \<Rightarrow> (Rejected (ENOENT p), emit (WriteFile p c) w)
            | Some (File _) \<Rightarrow> (Rejected (ENOTDIR p), emit (WriteFile p c) w)
            | Some Dir \<Rightarrow> (Done (), (emit (WriteFile p c) w)\<lparr>fs := (fs w)(p \<mapsto> File c)\<rparr>)))"

subsection \<open>The environment of a run\<close>

text \<open>What the user does at a question: submits a value, or aborts the prompt.\<close>

datatype 'a response = Submit 'a | Abort

text \<open>
  \<open>process cmd cwd\<close> is what the external command does: it maps the filesystem to a
  status and the filesystem it leaves behind, the status being 0 exactly when the
  callback of \<^verbatim>\<open>exec\<close> gets no error (the command ran and exited with status 0).
  \<open>JSON_parse\<close> is \<^verbatim>\<open>JSON.parse\<close>, with \<open>None\<close> for a syntax error; \<open>green\<close> is the
  colouring helper of \<^verbatim>\<open>lithia/utils\<close>. The three flags are what \<^verbatim>\<open>pingVersion\<close>
  returns for each tool. \<open>in_flight before after\<close> is the disk at the moment a rejection
  propagates while another filesystem call is still at work, which started on the disk
  \<open>before\<close> and would leave the disk \<open>after\<close>; the model puts no condition on it. A
  response to a text question is the text the prompt accepted
  (it asks again until \<^verbatim>\<open>validateProjectName\<close> accepts); a response to a select
  question is the value of the choice taken, and the model lets it be any value of that
  type.
\<close>

record env =
  npmInstalled :: bool
  yarnInstalled :: bool
  gitInstalled :: bool
  cwd :: path
  rName :: "string response"
  rTemplate :: "ProjectTemplate response"
  rInstallDeps :: "bool response"
  rInstallDepsManager :: "string response"
  rGitInit :: "bool response"
  rOverwrite :: "bool response"
  process :: "string \<Rightarrow> path \<Rightarrow> filesystem \<Rightarrow> nat \<times> filesystem"
  in_flight :: "filesystem \<Rightarrow> filesystem \<Rightarrow> filesystem"
  JSON_parse :: "string \<Rightarrow> json option"
  green :: "string \<Rightarrow> string"

text \<open>
  \<^verbatim>\<open>new Promise((resolve, reject) => exec(cmd, { cwd }, (err) => err ? reject(err) : resolve()))\<close>:
  the callback's \<open>err\<close> is set exactly when the command did not exit with status 0.
\<close>

definition exec :: "env \<Rightarrow> string \<Rightarrow> path \<Rightarrow> unit step" where
  "exec e cmd dir w =
     (case process e cmd dir (fs w) of
        (code, fs') \<Rightarrow>
          (if code = 0 then (Done (), (emit (Exec cmd dir) w)\<lparr>fs := fs'\<rparr>)
           else (Rejected (ExecError cmd code), (emit (Exec cmd dir) w)\<lparr>fs := fs'\<rparr>)))"

text \<open>
  \<^verbatim>\<open>Promise.all([a, b])\<close> over two filesystem calls: both are started. When both
  fulfil, both have taken effect. When one rejects, the result rejects at once, while
  the other call may still be at work: what it has done to the disk by then is
  \<open>in_flight\<close> of the environment. When both reject, neither has changed the disk and
  the model reports the first one's error.
\<close>

definition promise_all2 :: "env \<Rightarrow> unit step \<Rightarrow> unit step \<Rightarrow> unit step" where
  "promise_all2 e a b w =
     (case a w of (ra, wa) \<Rightarrow>
        (case b wa of (rb, wb) \<Rightarrow>
           (case ra of
              Done _ \<Rightarrow>
                (case rb of
                   Done _ \<Rightarrow> (rb, wb)
                 | _ \<Rightarrow> (rb, wb\<lparr>fs := in_flight e (fs w) (fs wb)\<rparr>))
            | _ \<Rightarrow>
                (case rb of
                   Done _ \<Rightarrow> (ra, wb\<lparr>fs := in_flight e (fs w) (fs wb)\<rparr>)
                 | _ \<Rightarrow> (ra, wb)))))"

text \<open>
  Modelled from the spec: \<^verbatim>\<open>runPromiseStep\<close> is imported from \<^verbatim>\<open>lithia/utils\<close> and its
  body is not part of this repository. The spec describes it as a scoped helper that
  shows a progress indicator, runs the enclosed operation, finalises the indicator on
  both the success and the failure path, and rethrows the error.
\<close>

definition runPromiseStep :: "'a step \<Rightarrow> string \<Rightarrow> 'a step" where
  "runPromiseStep body msg w =
     (case body (emit (StepBegin msg) w) of
        (Done x, w') \<Rightarrow> (Done x, emit (StepEnd msg True) w')
      | (Exited n, w') \<Rightarrow> (Exited n, w')
      | (Rejected e, w') \<Rightarrow> (Rejected e, emit (StepEnd msg False) w'))"

subsection \<open>The steps of \<^verbatim>\<open>run\<close>\<close>

text \<open>Lines 47-51: the three probes, started in this order.\<close>

definition pingVersion :: "env \<Rightarrow> string \<Rightarrow> bool step" where
  "pingVersion e tool w =
     (Done (if tool = ''npm'' then npmInstalled e
            else if tool = ''yarn'' then yarnInstalled e
            else gitInstalled e),
      emit (PingVersion tool) w)"

definition capability_probe :: "env \<Rightarrow> (bool \<times> bool \<times> bool) step" where
  "capability_probe e =
     seq (pingVersion e ''npm'') (\<lambda>npm.
     seq (pingVersion e ''yarn'') (\<lambda>yarn.
     seq (pingVersion e ''git'') (\<lambda>git.
     ret (npm, yarn, git))))"

text \<open>
  Lines 96-99 and 117-118: the cancellation notice followed by \<^verbatim>\<open>process.exit(0)\<close>.
\<close>

definition cancelled :: "'a step" where
  "cancelled = seq (info ''Operation cancelled'') (\<lambda>_. process_exit 0)"

text \<open>
  One question of \<^verbatim>\<open>prompts\<close>. A question whose type is null is skipped: nothing is
  rendered and its answer stays undefined. A submitted value is the answer. On an abort
  the \<open>onCancel\<close> handler runs.
\<close>

definition ask :: "'a option step \<Rightarrow> string \<Rightarrow> bool \<Rightarrow> 'a response \<Rightarrow> 'a option step" where
  "ask onCancel nm shown r w =
     (if \<not> shown then (Done None, w)
      else (case r of
              Submit v \<Rightarrow> (Done (Some v), emit (Ask nm) w)
            | Abort \<Rightarrow> onCancel (emit (Ask nm) w)))"

text \<open>The answers object: a question that was not asked leaves its field undefined.\<close>

record answers =
  pName :: "string option"
  pTemplate :: "ProjectTemplate option"
  pInstallDeps :: "bool option"
  pInstallDepsManager :: "string option"
  pGitInit :: "bool option"

text \<open>
  Lines 53-101. The package-manager question has the type
  \<^verbatim>\<open>(prev) => (prev ? 'select' : null)\<close>, the git question
  \<^verbatim>\<open>!gitInstalled ? null : 'confirm'\<close>; the name is formatted by \<^verbatim>\<open>v.trim()\<close>.
  The flags for npm and yarn only disable choices of the package-manager question, inside
  the prompt library.
\<close>

definition answer_collector :: "env \<Rightarrow> bool \<Rightarrow> answers step" where
  "answer_collector e git =
     seq (ask cancelled ''pName'' True (rName e)) (\<lambda>n.
     seq (ask cancelled ''pTemplate'' True (rTemplate e)) (\<lambda>t.
     seq (ask cancelled ''pInstallDeps'' True (rInstallDeps e)) (\<lambda>i.
     seq (ask cancelled ''pInstallDepsManager'' (i = Some True) (rInstallDepsManager e)) (\<lambda>m.
     seq (ask cancelled ''pGitInit'' git (rGitInit e)) (\<lambda>g.
     ret \<lparr>pName = map_option trim n, pTemplate = t, pInstallDeps = i,
          pInstallDepsManager = m, pGitInit = g\<rparr>)))))"

text \<open>
  Lines 104-124. The overwrite question is asked with no \<open>onCancel\<close> handler, so an
  abort leaves \<^verbatim>\<open>answer.pOverwrite\<close> undefined, which is falsy.
\<close>

definition workspace_preparer :: "env \<Rightarrow> path \<Rightarrow> unit step" where
  "workspace_preparer e dir =
     seq (stat_or_null dir) (\<lambda>dirExists.
     seq (if dirExists \<noteq> None
          then seq (ask (ret None) ''pOverwrite'' True (rOverwrite e)) (\<lambda>pOverwrite.
                 if pOverwrite = Some True then rm_recursive dir else cancelled)
          else ret ()) (\<lambda>_.
     seq (console_log []) (\<lambda>_.
     mkdir_recursive dir)))"

text \<open>Line 130: the command line of the clone, a template literal.\<close>

definition clone_command :: "ProjectTemplate \<Rightarrow> string" where
  "clone_command t = ''git clone --branch '' @ branch t @ '' '' @ url t @ '' .''"

text \<open>
  Lines 126-142. Reading \<^verbatim>\<open>answers.pTemplate.branch\<close> of an undefined template throws
  inside the promise, which rejects.
\<close>

definition template_materializer :: "env \<Rightarrow> answers \<Rightarrow> path \<Rightarrow> unit step" where
  "template_materializer e a dir =
     runPromiseStep
       (case pTemplate a of
          None \<Rightarrow> reject TypeError
        | Some t \<Rightarrow> exec e (clone_command t) dir)
       ''Cloning template repository...''"

text \<open>
  Lines 155-158 on the own properties of an object: \<^verbatim>\<open>pJson.name = answers.pName\<close>,
  \<^verbatim>\<open>pJson.version = '0.1.0'\<close>, \<^verbatim>\<open>delete pJson.description\<close>.
\<close>

definition patched :: "string \<Rightarrow> (string \<times> json) list \<Rightarrow> (string \<times> json) list" where
  "patched n ps =
     delete_prop ''description''
       (set_prop ''version'' (JString ''0.1.0'') (set_prop ''name'' (JString n) ps))"

text \<open>
  The same lines on any parsed value. An array is an object too, but
  \<^verbatim>\<open>JSON.stringify\<close> prints only its elements, so the property set on it is not seen
  again. Null and the primitive values have no properties to set: module code is strict,
  so the assignment throws.
\<close>

fun patch_manifest :: "string \<Rightarrow> json \<Rightarrow> error + json" where
  "patch_manifest n (JObject ps) = Inr (JObject (patched n ps))"
| "patch_manifest n (JArray xs) = Inr (JArray xs)"
| "patch_manifest n _ = Inl TypeError"

text \<open>Lines 144-164.\<close>

definition manifest_patcher :: "env \<Rightarrow> string \<Rightarrow> path \<Rightarrow> unit step" where
  "manifest_patcher e n dir =
     runPromiseStep
       (seq (promise_all2 e (rm_recursive (path_resolve dir ''.git''))
                            (rm_recursive (path_resolve dir ''package-lock.json''))) (\<lambda>_.
        seq (readFile (path_resolve dir ''package.json'')) (\<lambda>data.
        case JSON_parse e data of
          None \<Rightarrow> reject SyntaxError
        | Some pJson \<Rightarrow>
            (case patch_manifest n pJson of
               Inl err \<Rightarrow> reject err
             | Inr pJson' \<Rightarrow>
                 writeFile (path_resolve dir ''package.json'') (JSON_stringify pJson' 2)))))
       ''Preparing workspace...''"

text \<open>Line 187: the command line of the install, a template literal.\<close>

definition install_command :: "string option \<Rightarrow> string" where
  "install_command manager = js_text manager @ '' install''"

text \<open>Lines 166-200.\<close>

definition optional_initializers :: "env \<Rightarrow> answers \<Rightarrow> path \<Rightarrow> unit step" where
  "optional_initializers e a dir =
     seq (if pGitInit a = Some True
          then runPromiseStep (exec e ''git init'' dir) ''Initializing git repository...''
          else ret ()) (\<lambda>_.
     if pInstallDeps a = Some True
     then runPromiseStep (exec e (install_command (pInstallDepsManager a)) dir)
            ''Installing dependencies...''
     else ret ())"

text \<open>
  Lines 202-211. The two arrows are the UTF-8 bytes of the box-drawing characters of
  the source.
\<close>

definition arrow_tee :: string where
  "arrow_tee = [CHR 0xE2, CHR 0x94, CHR 0x9C, CHR 0xE2, CHR 0x94, CHR 0x80,
                CHR 0xE2, CHR 0x94, CHR 0x80, CHR 0xE2, CHR 0x94, CHR 0x80] @ ''> ''"

definition arrow_corner :: string where
  "arrow_corner = [CHR 0xE2, CHR 0x94, CHR 0x94, CHR 0xE2, CHR 0x94, CHR 0x80,
                   CHR 0xE2, CHR 0x94, CHR 0x80, CHR 0xE2, CHR 0x94, CHR 0x80] @ ''> ''"

definition reporter :: "env \<Rightarrow> answers \<Rightarrow> string \<Rightarrow> unit step" where
  "reporter e a n =
     seq (ready ''Hold on, we are almost there!'') (\<lambda>_.
     seq (info ''Your project is ready to go, now you just need to run the following commands:'') (\<lambda>_.
     seq (info (arrow_tee @ green e (''cd '' @ n))) (\<lambda>_.
     seq (info (arrow_corner @ green e (js_text (pInstallDepsManager a) @ '' run dev''))) (\<lambda>_.
     process_exit 0))))"

text \<open>
  Lines 25-212. \<^verbatim>\<open>path.resolve\<close> throws a TypeError on an undefined argument, so from
  line 103 on the project name is a string.
\<close>

definition run :: "env \<Rightarrow> unit step" where
  "run e =
     seq (capability_probe e) (\<lambda>(npm, yarn, git).
     seq (answer_collector e git) (\<lambda>a.
     case pName a of
       None \<Rightarrow> reject TypeError
     | Some n \<Rightarrow>
         (let dir = path_resolve (cwd e) n in
          seq (workspace_preparer e dir) (\<lambda>_.
          seq (template_materializer e a dir) (\<lambda>_.
          seq (manifest_patcher e n dir) (\<lambda>_.
          seq (optional_initializers e a dir) (\<lambda>_.
          reporter e a n)))))))"

subsection \<open>Prefixes of the run\<close>

text \<open>
  The run up to the end of the Workspace Preparer (line 124) and up to the end of the
  Template Materializer (line 142). They yield what the rest of the run uses: the
  answers, the project name and the Workspace path. The theorems use them to name the
  state in which a later step starts; \<open>run_split_prepared\<close> and \<open>run_split_clone\<close>
  below show that \<open>run\<close> is each prefix followed by the remaining steps.
\<close>

definition run_to_prepared :: "env \<Rightarrow> (answers \<times> string \<times> path) step" where
  "run_to_prepared e =
     seq (capability_probe e) (\<lambda>(npm, yarn, git).
     seq (answer_collector e git) (\<lambda>a.
     case pName a of
       None \<Rightarrow> reject TypeError
     | Some n \<Rightarrow>
         (let dir = path_resolve (cwd e) n in
          seq (workspace_preparer e dir) (\<lambda>_. ret (a, n, dir)))))"

definition run_to_clone :: "env \<Rightarrow> (answers \<times> string \<times> path) step" where
  "run_to_clone e =
     seq (run_to_prepared e) (\<lambda>(a, n, dir).
     seq (template_materializer e a dir) (\<lambda>_. ret (a, n, dir)))"

text \<open>The events that change the disk.\<close>

fun mutation :: "event \<Rightarrow> bool" where
  "mutation (Rm _) = True"
| "mutation (Mkdir _) = True"
| "mutation (Exec _ _) = True"
| "mutation (WriteFile _ _) = True"
| "mutation _ = False"

text \<open>
  The events by which the Manifest Patcher is seen: its progress indicator, the read and
  the write. Its two deletions are told from the Workspace Preparer's by their paths.
\<close>

fun patcher_event :: "event \<Rightarrow> bool" where
  "patcher_event (ReadFile _) = True"
| "patcher_event (WriteFile _ _) = True"
| "patcher_event (StepBegin m) = (m = ''Preparing workspace...'')"
| "patcher_event (StepEnd m _) = (m = ''Preparing workspace...'')"
| "patcher_event _ = False"

subsection \<open>A concrete run\<close>

text \<open>
  A host with all three tools, a home directory, and a template whose clone leaves a
  manifest, a lockfile and the version-control directory in the Workspace. Every
  command other than a clone exits with status 0 and leaves the disk alone.
\<close>

definition example_manifest :: string where
  \<open>example_manifest =
     ''{"name":"lithia-template","version":"9.9.9","description":"A template","private":true}''\<close>

definition example_parsed :: json where
  "example_parsed =
     JObject [(''name'', JString ''lithia-template''), (''version'', JString ''9.9.9''),
              (''description'', JString ''A template''), (''private'', JBool True)]"

text \<open>The name as typed: a space, the name, a no-break space (U+00A0).\<close>

definition example_typed :: string where
  "example_typed = '' my-app'' @ [CHR 0xC2, CHR 0xA0]"

definition example_fs :: filesystem where
  "example_fs = [[] \<mapsto> Dir, [''home''] \<mapsto> Dir, [''home'', ''u''] \<mapsto> Dir]"

definition example_process :: "string \<Rightarrow> path \<Rightarrow> filesystem \<Rightarrow> nat \<times> filesystem" where
  "example_process cmd dir f =
     (if take 9 cmd = ''git clone''
      then (0, f(dir @ [''.git''] \<mapsto> Dir,
                 dir @ [''package-lock.json''] \<mapsto> File ''{}'',
                 dir @ [''package.json''] \<mapsto> File example_manifest))
      else (0, f))"

definition example_env :: env where
  "example_env =
     \<lparr>npmInstalled = True, yarnInstalled = True, gitInstalled = True,
      cwd = [''home'', ''u''],
      rName = Submit example_typed,
      rTemplate = Submit (templates ! 0),
      rInstallDeps = Submit False,
      rInstallDepsManager = Abort,
      rGitInit = Submit False,
      rOverwrite = Abort,
      process = example_process,
      in_flight = (\<lambda>before after. before),
      JSON_parse = (\<lambda>s. if s = example_manifest then Some example_parsed else None),
      green = (\<lambda>s. s)\<rparr>"

definition example_world :: world where
  "example_world = \<lparr>fs = example_fs, trace = []\<rparr>"

text \<open>The answers the collector builds from that environment.\<close>

definition example_answers :: answers where
  "example_answers =
     \<lparr>pName = Some ''my-app'', pTemplate = Some (templates ! 0), pInstallDeps = Some False,
      pInstallDepsManager = None, pGitInit = Some False\<rparr>"

text \<open>The same host with the target directory already there, holding one file.\<close>

definition occupied_world :: world where
  "occupied_world =
     \<lparr>fs = example_fs([''home'', ''u'', ''my-app''] \<mapsto> Dir,
                      [''home'', ''u'', ''my-app'', ''old.txt''] \<mapsto> File ''old''),
      trace = []\<rparr>"

subsection \<open>What a step adds to the trace\<close>

text \<open>
  \<open>yields m P Q\<close>: from any state, \<open>m\<close> only appends events to the trace, each of
  them satisfies \<open>P\<close>, and a value it returns satisfies \<open>Q\<close>.
\<close>

definition yields :: "'a step \<Rightarrow> (event \<Rightarrow> bool) \<Rightarrow> ('a \<Rightarrow> bool) \<Rightarrow> bool" where
  "yields m P Q =
     (\<forall>w r w'. m w = (r, w') \<longrightarrow>
        (\<exists>es. trace w' = trace w @ es \<and> list_all P es) \<and> (\<forall>x. r = Done x \<longrightarrow> Q x))"

section \<open>Sequencing and the trace\<close>

lemma seq_assoc: "seq (seq m f) g = seq m (\<lambda>x. seq (f x) g)"
  by (rule ext) (simp add: seq_def split: prod.splits result.splits)

lemma seq_ret [simp]: "seq (ret x) f = f x"
  by (rule ext) (simp add: seq_def ret_def)

lemma seq_reject [simp]: "seq (reject x) f = reject x"
  by (rule ext) (simp add: seq_def reject_def)

lemma probe_run: "capability_probe e w =
   (Done (npmInstalled e, yarnInstalled e, gitInstalled e),
    w\<lparr>trace := trace w @ [PingVersion ''npm'', PingVersion ''yarn'', PingVersion ''git'']\<rparr>)"
  by (simp add: capability_probe_def pingVersion_def seq_def ret_def emit_def)

lemma cancelled_run: "cancelled w = (Exited 0, w\<lparr>trace := trace w @ [Info ''Operation cancelled'', ProcessExit 0]\<rparr>)"
  by (simp add: cancelled_def seq_def info_def process_exit_def emit_def)

lemma ask_Submit: "ask c nm True (Submit v) w = (Done (Some v), w\<lparr>trace := trace w @ [Ask nm]\<rparr>)"
  by (simp add: ask_def emit_def)

lemma ask_skip: "ask c nm False r w = (Done None, w)"
  by (simp add: ask_def)

lemma ask_Abort: "ask cancelled nm True Abort w = (Exited 0, w\<lparr>trace := trace w @ [Ask nm, Info ''Operation cancelled'', ProcessExit 0]\<rparr>)"
  by (simp add: ask_def emit_def cancelled_run)

lemma yieldsD:
  "yields m P Q \<Longrightarrow> m w = (r, w') \<Longrightarrow>
     (\<exists>es. trace w' = trace w @ es \<and> list_all P es) \<and> (\<forall>x. r = Done x \<longrightarrow> Q x)"
  unfolding yields_def by blast

lemma yields_seq:
  assumes m: "yields m P Q" and f: "\<And>x. Q x \<Longrightarrow> yields (f x) P R"
  shows "yields (seq m f) P R"
  unfolding yields_def
proof (intro allI impI)
  fix w r w'
  assume run: "seq m f w = (r, w')"
  obtain r1 w1 where m1: "m w = (r1, w1)" by (cases "m w")
  from yieldsD[OF m m1] obtain es1 where
    t1: "trace w1 = trace w @ es1" and p1: "list_all P es1" and q1: "\<forall>x. r1 = Done x \<longrightarrow> Q x"
    by blast
  show "(\<exists>es. trace w' = trace w @ es \<and> list_all P es) \<and> (\<forall>x. r = Done x \<longrightarrow> R x)"
  proof (cases r1)
    case (Done x)
    with run m1 have fx: "f x w1 = (r, w')" by (simp add: seq_def)
    from q1 Done have "Q x" by simp
    from yieldsD[OF f[OF this] fx] obtain es2 where
      "trace w' = trace w1 @ es2" "list_all P es2" "\<forall>y. r = Done y \<longrightarrow> R y" by blast
    with t1 p1 have "trace w' = trace w @ (es1 @ es2) \<and> list_all P (es1 @ es2)" by simp
    with \<open>\<forall>y. r = Done y \<longrightarrow> R y\<close> show ?thesis by blast
  next
    case (Exited n)
    with run m1 have "r = Exited n" "w' = w1" by (simp_all add: seq_def)
    with t1 p1 show ?thesis by auto
  next
    case (Rejected x)
    with run m1 have "r = Rejected x" "w' = w1" by (simp_all add: seq_def)
    with t1 p1 show ?thesis by auto
  qed
qed

lemma yields_ret: "Q x \<Longrightarrow> yields (ret x) P Q"
  by (simp add: yields_def ret_def)

lemma yields_reject: "yields (reject x) P Q"
  by (simp add: yields_def reject_def)

lemma yields_runPromiseStep:
  assumes "yields body P Q" "P (StepBegin msg)" "\<And>b. P (StepEnd msg b)"
  shows "yields (runPromiseStep body msg) P Q"
  unfolding yields_def
proof (intro allI impI)
  fix w r w'
  assume run: "runPromiseStep body msg w = (r, w')"
  obtain r1 w1 where b: "body (emit (StepBegin msg) w) = (r1, w1)"
    by (cases "body (emit (StepBegin msg) w)")
  from yieldsD[OF assms(1) b] obtain es where
    t: "trace w1 = trace w @ StepBegin msg # es" and p: "list_all P es" and q: "\<forall>x. r1 = Done x \<longrightarrow> Q x"
    by (auto simp: emit_def)
  show "(\<exists>es. trace w' = trace w @ es \<and> list_all P es) \<and> (\<forall>x. r = Done x \<longrightarrow> Q x)"
    using run b t p q assms(2,3)
    by (cases r1) (auto simp: runPromiseStep_def emit_def)
qed

lemma yields_exec: "P (Exec cmd dir) \<Longrightarrow> yields (exec e cmd dir) P (\<lambda>_. True)"
  by (auto simp: yields_def exec_def emit_def split: prod.splits if_splits)

lemma yields_probe:
  "(\<And>t. P (PingVersion t)) \<Longrightarrow> yields (capability_probe e) P (\<lambda>(npm, yarn, git). git = gitInstalled e)"
  by (auto simp: yields_def capability_probe_def pingVersion_def seq_def ret_def emit_def)

lemma yields_cancelled:
  "(\<And>m. P (Info m)) \<Longrightarrow> (\<And>n. P (ProcessExit n)) \<Longrightarrow> yields cancelled P Q"
  by (auto simp: yields_def cancelled_def info_def process_exit_def seq_def emit_def)

lemma yields_ask:
  assumes "shown \<Longrightarrow> P (Ask nm)" "\<And>m. P (Info m)" "\<And>n. P (ProcessExit n)"
  shows "yields (ask cancelled nm shown r) P
           (\<lambda>v. (shown \<longrightarrow> (\<exists>x. r = Submit x \<and> v = Some x)) \<and> (\<not> shown \<longrightarrow> v = None))"
  using assms
  by (cases r) (auto simp: yields_def ask_def cancelled_def info_def process_exit_def seq_def emit_def)


lemma yields_info: "P (Info m) \<Longrightarrow> yields (info m) P (\<lambda>_. True)"
  by (simp add: yields_def info_def emit_def)

lemma yields_ready: "P (Ready m) \<Longrightarrow> yields (ready m) P (\<lambda>_. True)"
  by (simp add: yields_def ready_def emit_def)

lemma yields_console_log: "P (ConsoleLog m) \<Longrightarrow> yields (console_log m) P (\<lambda>_. True)"
  by (simp add: yields_def console_log_def emit_def)

lemma yields_process_exit: "P (ProcessExit n) \<Longrightarrow> yields (process_exit n) P Q"
  by (simp add: yields_def process_exit_def emit_def)

lemma yields_stat: "P (Stat p) \<Longrightarrow> yields (stat_or_null p) P (\<lambda>_. True)"
  by (simp add: yields_def stat_or_null_def emit_def)

lemma yields_rm: "P (Rm p) \<Longrightarrow> yields (rm_recursive p) P (\<lambda>_. True)"
  by (auto simp: yields_def rm_recursive_def emit_def split: option.splits)

lemma yields_mkdir: "P (Mkdir p) \<Longrightarrow> yields (mkdir_recursive p) P (\<lambda>_. True)"
  by (auto simp: yields_def mkdir_recursive_def emit_def split: option.splits)

lemma yields_readFile: "P (ReadFile p) \<Longrightarrow> yields (readFile p) P (\<lambda>_. True)"
  by (auto simp: yields_def readFile_def emit_def split: option.splits node.splits)

lemma yields_writeFile: "P (WriteFile p c) \<Longrightarrow> yields (writeFile p c) P (\<lambda>_. True)"
  by (auto simp: yields_def writeFile_def emit_def split: option.splits node.splits)

lemma yields_promise_all2:
  assumes a: "yields a P (\<lambda>_. True)" and b: "yields b P (\<lambda>_. True)"
  shows "yields (promise_all2 e a b) P (\<lambda>_. True)"
  unfolding yields_def
proof (intro allI impI)
  fix w r w'
  assume run: "promise_all2 e a b w = (r, w')"
  obtain ra wa where 1: "a w = (ra, wa)" by (cases "a w")
  obtain rb wb where 2: "b wa = (rb, wb)" by (cases "b wa")
  from yieldsD[OF a 1] obtain es1 where e1: "trace wa = trace w @ es1" "list_all P es1" by blast
  from yieldsD[OF b 2] obtain es2 where e2: "trace wb = trace wa @ es2" "list_all P es2" by blast
  from run 1 2 have "trace w' = trace wb"
    by (cases ra; cases rb) (auto simp: promise_all2_def)
  with e1 e2 have "trace w' = trace w @ (es1 @ es2) \<and> list_all P (es1 @ es2)" by simp
  then show "(\<exists>es. trace w' = trace w @ es \<and> list_all P es) \<and> (\<forall>x. r = Done x \<longrightarrow> True)"
    by blast
qed

lemma yields_if:
  "(c \<Longrightarrow> yields a P Q) \<Longrightarrow> (\<not> c \<Longrightarrow> yields b P Q) \<Longrightarrow> yields (if c then a else b) P Q"
  by simp

lemma yields_overwrite:
  "P (Ask ''pOverwrite'') \<Longrightarrow> yields (ask (ret None) ''pOverwrite'' True r) P (\<lambda>_. True)"
  by (cases r) (auto simp: yields_def ask_def ret_def emit_def)

lemma yields_collector:
  assumes a: "\<And>q. q \<noteq> ''pGitInit'' \<Longrightarrow> q \<noteq> ''pInstallDepsManager'' \<Longrightarrow> P (Ask q)"
    and m: "rInstallDeps e = Submit True \<Longrightarrow> P (Ask ''pInstallDepsManager'')"
    and g: "g \<Longrightarrow> P (Ask ''pGitInit'')" and i: "\<And>m. P (Info m)" and x: "\<And>n. P (ProcessExit n)"
  shows "yields (answer_collector e g) P
           (\<lambda>a. (\<exists>raw. rName e = Submit raw \<and> pName a = Some (trim raw))
               \<and> (\<exists>t. rTemplate e = Submit t \<and> pTemplate a = Some t)
               \<and> (\<exists>i. rInstallDeps e = Submit i \<and> pInstallDeps a = Some i)
               \<and> (\<not> g \<longrightarrow> pGitInit a = None))"
  unfolding answer_collector_def
proof (rule yields_seq[OF yields_ask[OF _ i x]], goal_cases)
  case 1
  show ?case by (rule a) simp_all
next
  case (2 n)
  show ?case
  proof (rule yields_seq[OF yields_ask[OF _ i x]], goal_cases)
    case 1
    show ?case by (rule a) simp_all
  next
    case (2 t)
    show ?case
    proof (rule yields_seq[OF yields_ask[OF _ i x]], goal_cases)
      case 1
      show ?case by (rule a) simp_all
    next
      case (2 d)
      show ?case
      proof (rule yields_seq[OF yields_ask[OF _ i x]], goal_cases)
        case 1
        with 2 have "rInstallDeps e = Submit True" by auto
        then show ?case by (rule m)
      next
        case (2 mm)
        show ?case
        proof (rule yields_seq[OF yields_ask[OF _ i x]], goal_cases)
          case 1
          then show ?case by (rule g)
        next
          case (2 gg)
          with \<open>_ \<and> (\<not> True \<longrightarrow> n = None)\<close> \<open>_ \<and> (\<not> True \<longrightarrow> t = None)\<close>
            \<open>_ \<and> (\<not> True \<longrightarrow> d = None)\<close>
          show ?case by (intro yields_ret) auto
        qed
      qed
    qed
  qed
qed

lemmas yields_seqT = yields_seq[where Q = "\<lambda>_. True"]

lemma yields_preparer:
  assumes "P (Ask ''pOverwrite'')" "\<And>m. P (Info m)" "\<And>n. P (ProcessExit n)"
     "P (Stat dir)" "P (Rm dir)" "P (Mkdir dir)" "P (ConsoleLog [])"
  shows "yields (workspace_preparer e dir) P (\<lambda>_. True)"
  unfolding workspace_preparer_def
  by (intro yields_seqT yields_stat yields_if yields_overwrite yields_rm yields_cancelled
        yields_ret yields_console_log yields_mkdir assms TrueI)

lemma yields_materializer:
  assumes "P (StepBegin ''Cloning template repository...'')"
    "\<And>b. P (StepEnd ''Cloning template repository...'' b)"
    "\<And>t. pTemplate a = Some t \<Longrightarrow> P (Exec (clone_command t) dir)"
  shows "yields (template_materializer e a dir) P (\<lambda>_. True)"
  unfolding template_materializer_def
proof (rule yields_runPromiseStep[OF _ assms(1,2)], cases "pTemplate a")
  case None
  then show "yields (case pTemplate a of None \<Rightarrow> reject TypeError
      | Some t \<Rightarrow> exec e (clone_command t) dir)
      P (\<lambda>_. True)"
    by (simp only: option.case yields_reject)
next
  case (Some t)
  then show "yields (case pTemplate a of None \<Rightarrow> reject TypeError
      | Some t \<Rightarrow> exec e (clone_command t) dir)
      P (\<lambda>_. True)"
    by (simp only: option.case) (rule yields_exec, rule assms(3), rule Some)
qed

lemma yields_patcher:
  assumes "P (StepBegin ''Preparing workspace...'')" "\<And>b. P (StepEnd ''Preparing workspace...'' b)"
    "\<And>p. P (Rm p)" "\<And>p. P (ReadFile p)" "\<And>p c. P (WriteFile p c)"
  shows "yields (manifest_patcher e n dir) P (\<lambda>_. True)"
  unfolding manifest_patcher_def
proof (rule yields_runPromiseStep[OF _ assms(1,2)], intro yields_seqT yields_promise_all2 yields_rm yields_readFile assms)
  fix x :: unit and data
  show "yields (case JSON_parse e data of None \<Rightarrow> reject SyntaxError
         | Some pJson \<Rightarrow>
             case patch_manifest n pJson of Inl err \<Rightarrow> reject err
             | Inr pJson' \<Rightarrow>
                 writeFile (path_resolve dir ''package.json'') (JSON_stringify pJson' 2))
         P (\<lambda>_. True)"
    by (auto split: option.splits sum.splits intro!: yields_reject yields_writeFile assms)
qed

lemma yields_initializers:
  assumes "\<And>m. P (StepBegin m)" "\<And>m b. P (StepEnd m b)"
    "pGitInit a = Some True \<Longrightarrow> P (Exec ''git init'' dir)"
    "pInstallDeps a = Some True \<Longrightarrow> P (Exec (install_command (pInstallDepsManager a)) dir)"
  shows "yields (optional_initializers e a dir) P (\<lambda>_. True)"
  unfolding optional_initializers_def
  by (intro yields_seqT yields_if yields_runPromiseStep yields_exec yields_ret assms TrueI)

lemma yields_reporter:
  assumes "\<And>m. P (Info m)" "\<And>m. P (Ready m)" "\<And>n. P (ProcessExit n)"
  shows "yields (reporter e a n) P Q"
  unfolding reporter_def
  by (intro yields_seqT yields_ready yields_info yields_process_exit assms)

section \<open>Cancellation\<close>

text \<open>
  Claim C9. If the user aborts at a question of the Answer Collector (a question that is
  asked: the package-manager question only after a yes to installing, the git question
  only when git was detected), the run ends with exit status 0, the trace ends with that
  question, the notice \<^verbatim>\<open>Operation cancelled\<close> and the exit, no event before it
  changes the disk, and the filesystem is the one the run started with.
\<close>

theorem abort_cancels_without_mutation:
  assumes "rName e = Abort \<or> rTemplate e = Abort \<or> rInstallDeps e = Abort
           \<or> (rInstallDeps e = Submit True \<and> rInstallDepsManager e = Abort)
           \<or> (gitInstalled e \<and> rGitInit e = Abort)"
  shows "\<exists>pre q. run e w = (Exited 0, w\<lparr>trace := trace w @ pre @ [Ask q, Info ''Operation cancelled'', ProcessExit 0]\<rparr>)
           \<and> list_all (\<lambda>x. \<not> mutation x) pre"
proof -
  have coll: "\<exists>pre q. answer_collector e (gitInstalled e) w1 =
      (Exited 0, w1\<lparr>trace := trace w1 @ pre @ [Ask q, Info ''Operation cancelled'', ProcessExit 0]\<rparr>)
      \<and> list_all (\<lambda>x. \<not> mutation x) pre" for w1
  proof (cases "rName e")
    case Abort
    then show ?thesis
      by (intro exI[of _ "[]"] exI[of _ "''pName''"]) (simp add: answer_collector_def seq_def ask_Abort)
  next
    case n: (Submit raw)
    show ?thesis
    proof (cases "rTemplate e")
      case Abort
      then show ?thesis using n
        by (intro exI[of _ "[Ask ''pName'']"] exI[of _ "''pTemplate''"])
           (simp add: answer_collector_def seq_def ask_Abort ask_Submit)
    next
      case t: (Submit t)
      show ?thesis
      proof (cases "rInstallDeps e")
        case Abort
        then show ?thesis using n t
          by (intro exI[of _ "[Ask ''pName'', Ask ''pTemplate'']"] exI[of _ "''pInstallDeps''"])
             (simp add: answer_collector_def seq_def ask_Abort ask_Submit)
      next
        case i: (Submit i)
        show ?thesis
        proof (cases "i \<and> rInstallDepsManager e = Abort")
          case True
          then show ?thesis using n t i
            by (intro exI[of _ "[Ask ''pName'', Ask ''pTemplate'', Ask ''pInstallDeps'']"]
                      exI[of _ "''pInstallDepsManager''"])
               (simp add: answer_collector_def seq_def ask_Abort ask_Submit)
        next
          case False
          with assms n t i have g: "gitInstalled e" "rGitInit e = Abort" by auto
          show ?thesis
          proof (cases i)
            case True
            with False obtain m where "rInstallDepsManager e = Submit m"
              by (cases "rInstallDepsManager e") auto
            then show ?thesis using n t i g True
              by (intro exI[of _ "[Ask ''pName'', Ask ''pTemplate'', Ask ''pInstallDeps'',
                                   Ask ''pInstallDepsManager'']"] exI[of _ "''pGitInit''"])
                 (simp add: answer_collector_def seq_def ask_Abort ask_Submit)
          next
            case False
            then show ?thesis using n t i g
              by (intro exI[of _ "[Ask ''pName'', Ask ''pTemplate'', Ask ''pInstallDeps'']"]
                        exI[of _ "''pGitInit''"])
                 (simp add: answer_collector_def seq_def ask_Abort ask_Submit ask_skip)
          qed
        qed
      qed
    qed
  qed
  from coll[of "w\<lparr>trace := trace w @ [PingVersion ''npm'', PingVersion ''yarn'', PingVersion ''git'']\<rparr>"]
  obtain pre q where c: "answer_collector e (gitInstalled e)
       (w\<lparr>trace := trace w @ [PingVersion ''npm'', PingVersion ''yarn'', PingVersion ''git'']\<rparr>) =
      (Exited 0, w\<lparr>trace := trace w @ [PingVersion ''npm'', PingVersion ''yarn'', PingVersion ''git'']
            @ pre @ [Ask q, Info ''Operation cancelled'', ProcessExit 0]\<rparr>)"
    and p: "list_all (\<lambda>x. \<not> mutation x) pre"
    by auto
  have "run e w = (Exited 0, w\<lparr>trace := trace w @ ([PingVersion ''npm'', PingVersion ''yarn'', PingVersion ''git'']
            @ pre) @ [Ask q, Info ''Operation cancelled'', ProcessExit 0]\<rparr>)"
    unfolding run_def
    by (simp add: seq_def probe_run c)
  moreover have "list_all (\<lambda>x. \<not> mutation x) ([PingVersion ''npm'', PingVersion ''yarn'', PingVersion ''git''] @ pre)"
    using p by simp
  ultimately show ?thesis by blast
qed

theorem abort_cancels_without_mutation_witness:
  "\<exists>pre q. run (example_env\<lparr>rTemplate := Abort\<rparr>) example_world =
       (Exited 0, example_world\<lparr>trace := trace example_world @ pre
          @ [Ask q, Info ''Operation cancelled'', ProcessExit 0]\<rparr>)
     \<and> list_all (\<lambda>x. \<not> mutation x) pre"
  using abort_cancels_without_mutation [of "example_env\<lparr>rTemplate := Abort\<rparr>" example_world]
  by (simp add: example_env_def)

section \<open>What the whole run can emit\<close>

lemma install_not_init: "install_command m \<noteq> ''git init''"
proof
  assume a: "install_command m = ''git init''"
  then have "length (js_text m @ '' install'') = length ''git init''"
    by (simp add: install_command_def)
  then have "js_text m = []" by simp
  with a show False by (simp add: install_command_def)
qed

lemma clone_not_install: "clone_command t \<noteq> m @ '' install''"
proof
  assume "clone_command t = m @ '' install''"
  then have "last (clone_command t) = last (m @ '' install'')"
    by (rule arg_cong)
  then show False by (simp add: clone_command_def)
qed

lemma init_not_install: "''git init'' \<noteq> m @ '' install''"
proof
  assume "''git init'' = m @ '' install''"
  then have "last ''git init'' = last (m @ '' install'')"
    by (rule arg_cong)
  then show False by simp
qed

lemma clone_not_init: "clone_command t \<noteq> ''git init''"
  by (simp add: clone_command_def)

lemma yields_run:
  assumes ping: "\<And>t. P (PingVersion t)"
    and ask: "\<And>q. q \<noteq> ''pGitInit'' \<Longrightarrow> q \<noteq> ''pInstallDepsManager'' \<Longrightarrow> P (Ask q)"
    and askm: "rInstallDeps e = Submit True \<Longrightarrow> P (Ask ''pInstallDepsManager'')"
    and askg: "gitInstalled e \<Longrightarrow> P (Ask ''pGitInit'')"
    and inf: "\<And>m. P (Info m)" and ex: "\<And>n. P (ProcessExit n)" and st: "\<And>p. P (Stat p)"
    and rm: "\<And>p. P (Rm p)" and mk: "\<And>p. P (Mkdir p)" and cl: "P (ConsoleLog [])"
    and sb: "\<And>m. P (StepBegin m)" and se: "\<And>m b. P (StepEnd m b)"
    and rd: "\<And>p. P (ReadFile p)" and wr: "\<And>p c. P (WriteFile p c)" and re: "\<And>m. P (Ready m)"
    and clone: "\<And>t d. rTemplate e = Submit t \<Longrightarrow>
                  P (Exec (clone_command t) d)"
    and init: "\<And>d. gitInstalled e \<Longrightarrow> P (Exec ''git init'' d)"
    and inst: "\<And>m d. rInstallDeps e = Submit True \<Longrightarrow> P (Exec (install_command m) d)"
  shows "yields (run e) P (\<lambda>_. True)"
proof -
  have tail: "yields (case pName a of
       None \<Rightarrow> reject TypeError
     | Some n \<Rightarrow>
         (let dir = path_resolve (cwd e) n in
          seq (workspace_preparer e dir) (\<lambda>_.
          seq (template_materializer e a dir) (\<lambda>_.
          seq (manifest_patcher e n dir) (\<lambda>_.
          seq (optional_initializers e a dir) (\<lambda>_.
          reporter e a n)))))) P (\<lambda>_. True)"
    if q: "(\<exists>raw. rName e = Submit raw \<and> pName a = Some (trim raw))
               \<and> (\<exists>t. rTemplate e = Submit t \<and> pTemplate a = Some t)
               \<and> (\<exists>i. rInstallDeps e = Submit i \<and> pInstallDeps a = Some i)
               \<and> (\<not> gitInstalled e \<longrightarrow> pGitInit a = None)" for a :: answers
  proof -
    from q obtain raw t i where a: "pName a = Some (trim raw)" "rTemplate e = Submit t" "pTemplate a = Some t"
      "rInstallDeps e = Submit i" "pInstallDeps a = Some i" "\<not> gitInstalled e \<longrightarrow> pGitInit a = None"
      by blast
    have g: "pGitInit a = Some True \<Longrightarrow> gitInstalled e" using a(6) by auto
    have d: "pInstallDeps a = Some True \<Longrightarrow> rInstallDeps e = Submit True" using a(4,5) by auto
    show ?thesis
      unfolding a(1) option.case Let_def
      by (intro yields_seqT yields_preparer yields_materializer yields_patcher
            yields_initializers yields_reporter)
         (simp_all add: a(3) ask inf ex st rm mk cl sb se rd wr re clone[OF a(2)] init[OF g] inst[OF d])
  qed
  have "yields (seq (answer_collector e (gitInstalled e)) (\<lambda>a.
     case pName a of
       None \<Rightarrow> reject TypeError
     | Some n \<Rightarrow>
         (let dir = path_resolve (cwd e) n in
          seq (workspace_preparer e dir) (\<lambda>_.
          seq (template_materializer e a dir) (\<lambda>_.
          seq (manifest_patcher e n dir) (\<lambda>_.
          seq (optional_initializers e a dir) (\<lambda>_.
          reporter e a n))))))) P (\<lambda>_. True)"
    by (rule yields_seq[OF yields_collector[of P e "gitInstalled e", OF ask askm askg inf ex] tail])
  then show ?thesis
    unfolding run_def
    by (intro yields_seq[OF yields_probe[of P e, OF ping]]) auto
qed

section \<open>The optional steps\<close>

text \<open>
  Claim C7. In every execution in which the probe did not find the version-control
  client, the trace of the run has no \<^verbatim>\<open>pGitInit\<close> question and no \<^verbatim>\<open>git init\<close>
  command, whatever the user answers and however the run ends.
\<close>

theorem no_git_init_without_client:
  assumes "\<not> gitInstalled e" and "run e w = (r, w')"
  shows "\<exists>es. trace w' = trace w @ es \<and> Ask ''pGitInit'' \<notin> set es
           \<and> (\<forall>d. Exec ''git init'' d \<notin> set es)"
proof -
  have "yields (run e) (\<lambda>x. x \<noteq> Ask ''pGitInit'' \<and> (\<forall>d. x \<noteq> Exec ''git init'' d)) (\<lambda>_. True)"
    by (rule yields_run) (simp_all add: assms(1) clone_not_init install_not_init)
  from yieldsD[OF this assms(2)] show ?thesis
    by (auto simp: list_all_iff)
qed

theorem no_git_init_without_client_witness:
  "\<exists>es. trace (snd (run (example_env\<lparr>gitInstalled := False\<rparr>) example_world))
          = trace example_world @ es \<and> Ask ''pGitInit'' \<notin> set es
           \<and> (\<forall>d. Exec ''git init'' d \<notin> set es)"
  using no_git_init_without_client [of "example_env\<lparr>gitInstalled := False\<rparr>" example_world
      "fst (run (example_env\<lparr>gitInstalled := False\<rparr>) example_world)"
      "snd (run (example_env\<lparr>gitInstalled := False\<rparr>) example_world)"]
  by (simp add: example_env_def)

text \<open>
  Claim C8. In every execution in which the user answers false to the
  install-dependencies question, the trace of the run has no command of the form
  \<^verbatim>\<open><manager> install\<close> (and no package-manager question), however the run ends.
\<close>

theorem no_install_when_declined:
  assumes "rInstallDeps e = Submit False" and "run e w = (r, w')"
  shows "\<exists>es. trace w' = trace w @ es \<and> Ask ''pInstallDepsManager'' \<notin> set es
           \<and> (\<forall>m d. Exec (m @ '' install'') d \<notin> set es)"
proof -
  have "yields (run e) (\<lambda>x. x \<noteq> Ask ''pInstallDepsManager'' \<and> (\<forall>m d. x \<noteq> Exec (m @ '' install'') d))
          (\<lambda>_. True)"
    by (rule yields_run) (simp_all add: assms(1) clone_not_install init_not_install)
  from yieldsD[OF this assms(2)] show ?thesis
    by (auto simp: list_all_iff)
qed

theorem no_install_when_declined_witness:
  "\<exists>es. trace (snd (run example_env example_world)) = trace example_world @ es
         \<and> Ask ''pInstallDepsManager'' \<notin> set es
         \<and> (\<forall>m d. Exec (m @ '' install'') d \<notin> set es)"
  using no_install_when_declined [of example_env example_world
      "fst (run example_env example_world)" "snd (run example_env example_world)"]
  by (simp add: example_env_def)

section \<open>The run up to the Workspace Preparer\<close>

lemma collector_completes:
  assumes "rName e = Submit raw" and "rTemplate e = Submit t" and "rInstallDeps e = Submit i"
    and "i \<longrightarrow> rInstallDepsManager e \<noteq> Abort" and "g \<longrightarrow> rGitInit e \<noteq> Abort"
  shows "\<exists>a w1 es. answer_collector e g w = (Done a, w1) \<and> fs w1 = fs w
           \<and> trace w1 = trace w @ es \<and> list_all (\<lambda>x. \<not> mutation x) es
           \<and> pName a = Some (trim raw) \<and> pTemplate a = Some t \<and> pInstallDeps a = Some i"
  using assms
  by (cases i; cases g; cases "rInstallDepsManager e"; cases "rGitInit e")
     (simp_all add: answer_collector_def seq_def ask_def emit_def ret_def)

lemma preparer_declined:
  assumes "fs w dir \<noteq> None" and "rOverwrite e \<noteq> Submit True"
  shows "workspace_preparer e dir w =
           (Exited 0, w\<lparr>trace := trace w @ [Stat dir, Ask ''pOverwrite'',
                                              Info ''Operation cancelled'', ProcessExit 0]\<rparr>)"
proof (cases "rOverwrite e")
  case (Submit b)
  with assms show ?thesis
    by (auto simp: workspace_preparer_def seq_def stat_or_null_def ask_def emit_def ret_def cancelled_run)
next
  case Abort
  with assms show ?thesis
    by (auto simp: workspace_preparer_def seq_def stat_or_null_def ask_def emit_def ret_def cancelled_run)
qed

lemma run_to_prepared_collected:
  assumes "answer_collector e (gitInstalled e)
             (w\<lparr>trace := trace w @ [PingVersion ''npm'', PingVersion ''yarn'', PingVersion ''git'']\<rparr>)
           = (Done a, w1)"
    and "pName a = Some n"
  shows "run_to_prepared e w =
           seq (workspace_preparer e (path_resolve (cwd e) n))
               (\<lambda>_. ret (a, n, path_resolve (cwd e) n)) w1"
  using assms by (simp add: run_to_prepared_def seq_def probe_run Let_def)

lemma run_split_prepared:
  "run e = seq (run_to_prepared e) (\<lambda>(a, n, dir).
     seq (template_materializer e a dir) (\<lambda>_.
     seq (manifest_patcher e n dir) (\<lambda>_.
     seq (optional_initializers e a dir) (\<lambda>_. reporter e a n))))"
proof -
  have opt: "seq (case x of None \<Rightarrow> a | Some y \<Rightarrow> b y) f
           = (case x of None \<Rightarrow> seq a f | Some y \<Rightarrow> seq (b y) f)"
    for x :: "string option" and a :: "(answers \<times> string \<times> path) step" and b and f :: "_ \<Rightarrow> unit step"
    by (cases x) simp_all
  have prd: "seq (case x of (a, b, c) \<Rightarrow> h a b c) f = (case x of (a, b, c) \<Rightarrow> seq (h a b c) f)"
    for x :: "bool \<times> bool \<times> bool" and h :: "_ \<Rightarrow> _ \<Rightarrow> _ \<Rightarrow> (answers \<times> string \<times> path) step"
      and f :: "_ \<Rightarrow> unit step"
    by (cases x) simp_all
  show ?thesis
    by (simp add: run_def run_to_prepared_def seq_assoc opt prd Let_def cong: option.case_cong)
qed

lemma run_split_clone:
  "run e = seq (run_to_clone e) (\<lambda>(a, n, dir).
     seq (manifest_patcher e n dir) (\<lambda>_.
     seq (optional_initializers e a dir) (\<lambda>_. reporter e a n)))"
proof -
  have prd: "seq (case x of (a, b, c) \<Rightarrow> h a b c) f = (case x of (a, b, c) \<Rightarrow> seq (h a b c) f)"
    for x :: "answers \<times> string \<times> path" and h :: "_ \<Rightarrow> _ \<Rightarrow> _ \<Rightarrow> (answers \<times> string \<times> path) step"
      and f :: "_ \<Rightarrow> unit step"
    by (cases x) simp_all
  show ?thesis
    by (simp add: run_split_prepared run_to_clone_def seq_assoc prd)
qed

lemma preparer_confirmed:
  assumes "fs w dir \<noteq> None" and "rOverwrite e = Submit True"
  shows "\<exists>r w'. workspace_preparer e dir w = (r, w')
           \<and> trace w' = trace w @ [Stat dir, Ask ''pOverwrite'', Rm dir, ConsoleLog [], Mkdir dir]
           \<and> (\<forall>q. strict_prefix dir q \<longrightarrow> fs w' q = None)
           \<and> (r = Done () \<and> fs w' dir = Some Dir \<or> r = Rejected (ENOTDIR dir) \<and> fs w' dir = None)"
proof -
  let ?w1 = "w\<lparr>fs := (\<lambda>q. if prefix dir q then None else fs w q),
               trace := trace w @ [Stat dir, Ask ''pOverwrite'', Rm dir, ConsoleLog []]\<rparr>"
  have 1: "workspace_preparer e dir w = mkdir_recursive dir ?w1"
    using assms
    by (auto simp: workspace_preparer_def seq_def stat_or_null_def ask_def emit_def ret_def
          rm_recursive_def console_log_def cong del: if_weak_cong)
  show ?thesis
  proof (cases "find (\<lambda>q. is_file (fs ?w1 q)) (prefixes dir)")
    case None
    then show ?thesis unfolding 1
      by (simp add: mkdir_recursive_def emit_def strict_prefix_def prefix_order.antisym_conv)
  next
    case (Some q)
    then have "is_file (fs ?w1 q)" by (auto simp: find_Some_iff)
    then have "q \<noteq> dir" by (auto simp: is_file_def)
    with Some show ?thesis unfolding 1
      by (simp add: mkdir_recursive_def emit_def strict_prefix_def)
  qed
qed

lemma tail_yields:
  "yields (seq (template_materializer e a dir) (\<lambda>_.
           seq (manifest_patcher e n dir) (\<lambda>_.
           seq (optional_initializers e a dir) (\<lambda>_. reporter e a n))))
     (\<lambda>_. True) (\<lambda>_. True)"
  by (intro yields_seqT yields_materializer yields_patcher yields_initializers yields_reporter TrueI)

lemma run_from_prepared:
  assumes "run_to_prepared e w = (r0, w0)" and "run e w = (r, w')"
  shows "(\<exists>post. trace w' = trace w0 @ post)
       \<and> (\<forall>x. r0 = Rejected x \<longrightarrow> r = Rejected x \<and> w' = w0)
       \<and> (\<forall>k. r0 = Exited k \<longrightarrow> r = Exited k \<and> w' = w0)"
proof (cases r0)
  case (Done x)
  obtain a n dir where x: "x = (a, n, dir)" by (cases x)
  from assms Done x have "seq (template_materializer e a dir) (\<lambda>_.
           seq (manifest_patcher e n dir) (\<lambda>_.
           seq (optional_initializers e a dir) (\<lambda>_. reporter e a n))) w0 = (r, w')"
    by (simp add: run_split_prepared seq_def[of "run_to_prepared e"])
  from yieldsD[OF tail_yields this] Done show ?thesis by auto
next
  case (Exited k)
  with assms show ?thesis by (simp add: run_split_prepared seq_def[of "run_to_prepared e"])
next
  case (Rejected x)
  with assms show ?thesis by (simp add: run_split_prepared seq_def[of "run_to_prepared e"])
qed

section \<open>The pre-existing target directory\<close>

text \<open>
  Claim C3. When the user has answered every question of the Answer Collector, the
  target directory exists, and the answer at the overwrite prompt is anything but a
  submitted yes (a no, or an abort of the prompt), the run ends with exit status 0, the
  trace ends with the overwrite question, the notice \<^verbatim>\<open>Operation cancelled\<close> and the
  exit, no event of the run changes the disk, and the filesystem is unchanged.
\<close>

theorem decline_overwrite_no_mutation:
  assumes "rName e = Submit raw" and "rTemplate e \<noteq> Abort" and "rInstallDeps e = Submit i"
    and "i \<longrightarrow> rInstallDepsManager e \<noteq> Abort" and "gitInstalled e \<longrightarrow> rGitInit e \<noteq> Abort"
    and "fs w (path_resolve (cwd e) (trim raw)) \<noteq> None"
    and "rOverwrite e \<noteq> Submit True"
  shows "\<exists>w' pre. run e w = (Exited 0, w') \<and> fs w' = fs w
           \<and> trace w' = trace w @ pre @ [Ask ''pOverwrite'', Info ''Operation cancelled'', ProcessExit 0]
           \<and> list_all (\<lambda>x. \<not> mutation x) pre"
proof -
  let ?dir = "path_resolve (cwd e) (trim raw)"
  let ?w0 = "w\<lparr>trace := trace w @ [PingVersion ''npm'', PingVersion ''yarn'', PingVersion ''git'']\<rparr>"
  from assms(2) obtain t where t: "rTemplate e = Submit t" by (cases "rTemplate e") auto
  from collector_completes[OF assms(1) t assms(3,4,5), of ?w0]
  obtain a w1 es where c: "answer_collector e (gitInstalled e) ?w0 = (Done a, w1)"
    and f1: "fs w1 = fs w" and t1: "trace w1 = trace ?w0 @ es"
    and es: "list_all (\<lambda>x. \<not> mutation x) es" and n: "pName a = Some (trim raw)"
    by auto
  from assms(6) f1 have ex: "fs w1 ?dir \<noteq> None" by simp
  have p: "run_to_prepared e w = (Exited 0, w1\<lparr>trace := trace w1 @ [Stat ?dir, Ask ''pOverwrite'',
                                              Info ''Operation cancelled'', ProcessExit 0]\<rparr>)"
    by (simp add: run_to_prepared_collected[OF c n] seq_def preparer_declined[OF ex assms(7)])
  then have r: "run e w = (Exited 0, w1\<lparr>trace := trace w1 @ [Stat ?dir, Ask ''pOverwrite'',
                                              Info ''Operation cancelled'', ProcessExit 0]\<rparr>)"
    by (simp add: run_split_prepared seq_def)
  let ?pre = "[PingVersion ''npm'', PingVersion ''yarn'', PingVersion ''git''] @ es @ [Stat ?dir]"
  have "trace (w1\<lparr>trace := trace w1 @ [Stat ?dir, Ask ''pOverwrite'',
                                              Info ''Operation cancelled'', ProcessExit 0]\<rparr>)
        = trace w @ ?pre @ [Ask ''pOverwrite'', Info ''Operation cancelled'', ProcessExit 0]"
    using t1 by simp
  moreover have "list_all (\<lambda>x. \<not> mutation x) ?pre" using es by simp
  ultimately show ?thesis using r f1 by (intro exI[of _ "w1\<lparr>trace := _\<rparr>"] exI[of _ ?pre]) simp
qed

theorem decline_overwrite_no_mutation_witness:
  "\<exists>w' pre. run example_env occupied_world = (Exited 0, w') \<and> fs w' = fs occupied_world
       \<and> trace w' = trace occupied_world @ pre
             @ [Ask ''pOverwrite'', Info ''Operation cancelled'', ProcessExit 0]
       \<and> list_all (\<lambda>x. \<not> mutation x) pre"
  using decline_overwrite_no_mutation [of example_env example_typed False occupied_world]
  by (simp add: example_env_def occupied_world_def example_typed_def trim_def white_space_def path_resolve_def)

text \<open>
  Claim C4. When the target directory exists and the user confirms the overwrite, the
  first event of the run that changes the disk is the recursive removal of that
  directory, and the \<^verbatim>\<open>mkdir\<close> that recreates it follows at once. In the state the
  Workspace Preparer leaves, nothing exists below the directory, and every later event
  of the run comes after that state. The directory itself is there again as an empty
  directory, unless one of its ancestors is a file, in which case the \<^verbatim>\<open>mkdir\<close> and
  with it the run rejects.
\<close>

theorem overwrite_deletes_before_recreating:
  assumes "rName e = Submit raw" and "rTemplate e \<noteq> Abort" and "rInstallDeps e = Submit i"
    and "i \<longrightarrow> rInstallDepsManager e \<noteq> Abort" and "gitInstalled e \<longrightarrow> rGitInit e \<noteq> Abort"
    and "dir = path_resolve (cwd e) (trim raw)"
    and "fs w dir \<noteq> None"
    and "rOverwrite e = Submit True"
    and "run_to_prepared e w = (r0, w0)" and "run e w = (r, w')"
  shows "\<exists>pre post. trace w0 = trace w @ pre @ [Rm dir, ConsoleLog [], Mkdir dir]
           \<and> list_all (\<lambda>x. \<not> mutation x) pre
           \<and> trace w' = trace w0 @ post
           \<and> (\<forall>q. strict_prefix dir q \<longrightarrow> fs w0 q = None)
           \<and> ((\<exists>a. r0 = Done (a, trim raw, dir) \<and> fs w0 dir = Some Dir)
               \<or> (r0 = Rejected (ENOTDIR dir) \<and> r = Rejected (ENOTDIR dir) \<and> post = []))"
proof -
  let ?w = "w\<lparr>trace := trace w @ [PingVersion ''npm'', PingVersion ''yarn'', PingVersion ''git'']\<rparr>"
  from assms(2) obtain t where t: "rTemplate e = Submit t" by (cases "rTemplate e") auto
  from collector_completes[OF assms(1) t assms(3,4,5), of ?w]
  obtain a w1 es where c: "answer_collector e (gitInstalled e) ?w = (Done a, w1)"
    and f1: "fs w1 = fs w" and t1: "trace w1 = trace ?w @ es"
    and es: "list_all (\<lambda>x. \<not> mutation x) es" and n: "pName a = Some (trim raw)"
    by auto
  from assms(7) f1 have ex: "fs w1 dir \<noteq> None" by simp
  from preparer_confirmed[OF ex assms(8)]
  obtain r2 w2 where p: "workspace_preparer e dir w1 = (r2, w2)"
    and t2: "trace w2 = trace w1 @ [Stat dir, Ask ''pOverwrite'', Rm dir, ConsoleLog [], Mkdir dir]"
    and below: "\<forall>q. strict_prefix dir q \<longrightarrow> fs w2 q = None"
    and res: "r2 = Done () \<and> fs w2 dir = Some Dir \<or> r2 = Rejected (ENOTDIR dir) \<and> fs w2 dir = None"
    by blast
  have prep: "run_to_prepared e w = seq (workspace_preparer e dir) (\<lambda>_. ret (a, trim raw, dir)) w1"
    using run_to_prepared_collected[OF c n] assms(6) by simp
  have pr: "(r0, w0) = (case r2 of Done x \<Rightarrow> (Done (a, trim raw, dir), w2)
                 | Exited k \<Rightarrow> (Exited k, w2) | Rejected x \<Rightarrow> (Rejected x, w2))"
    using prep assms(9) p by (simp add: seq_def ret_def split: result.splits)
  from res pr have w0: "w0 = w2" by auto
  from res pr have r0: "r2 = Done () \<and> r0 = Done (a, trim raw, dir)
       \<or> r2 = Rejected (ENOTDIR dir) \<and> r0 = Rejected (ENOTDIR dir)"
    by auto
  let ?pre = "[PingVersion ''npm'', PingVersion ''yarn'', PingVersion ''git''] @ es
              @ [Stat dir, Ask ''pOverwrite'']"
  have a: "trace w0 = trace w @ ?pre @ [Rm dir, ConsoleLog [], Mkdir dir]"
    using t1 t2 w0 by simp
  have b: "list_all (\<lambda>x. \<not> mutation x) ?pre" using es by simp
  note rp = run_from_prepared[OF assms(9,10)]
  from rp[THEN conjunct1] obtain post where post: "trace w' = trace w0 @ post" ..
  from rp[THEN conjunct2, THEN conjunct1]
  have rej: "\<forall>x. r0 = Rejected x \<longrightarrow> r = Rejected x \<and> w' = w0" .
  have d: "(\<exists>a. r0 = Done (a, trim raw, dir) \<and> fs w0 dir = Some Dir)
               \<or> (r0 = Rejected (ENOTDIR dir) \<and> r = Rejected (ENOTDIR dir) \<and> post = [])"
  proof (cases "r2 = Done ()")
    case True
    with r0 res w0 show ?thesis by auto
  next
    case False
    with r0 have rr: "r0 = Rejected (ENOTDIR dir)" by auto
    with rej have "r = Rejected (ENOTDIR dir)" "w' = w0" by auto
    with post rr show ?thesis by simp
  qed
  have below0: "\<forall>q. strict_prefix dir q \<longrightarrow> fs w0 q = None"
    using below w0 by simp
  show ?thesis
    by (rule exI[of _ ?pre], rule exI[of _ post]) (intro conjI a b post below0 d)
qed

theorem overwrite_deletes_before_recreating_witness:
  "\<exists>pre post.
      trace (snd (run_to_prepared (example_env\<lparr>rOverwrite := Submit True\<rparr>) occupied_world))
        = trace occupied_world @ pre
            @ [Rm [''home'', ''u'', ''my-app''], ConsoleLog [], Mkdir [''home'', ''u'', ''my-app'']]
    \<and> list_all (\<lambda>x. \<not> mutation x) pre
    \<and> trace (snd (run (example_env\<lparr>rOverwrite := Submit True\<rparr>) occupied_world))
        = trace (snd (run_to_prepared (example_env\<lparr>rOverwrite := Submit True\<rparr>) occupied_world)) @ post
    \<and> (\<forall>q. strict_prefix [''home'', ''u'', ''my-app''] q \<longrightarrow>
           fs (snd (run_to_prepared (example_env\<lparr>rOverwrite := Submit True\<rparr>) occupied_world)) q = None)
    \<and> ((\<exists>a. fst (run_to_prepared (example_env\<lparr>rOverwrite := Submit True\<rparr>) occupied_world)
               = Done (a, ''my-app'', [''home'', ''u'', ''my-app''])
            \<and> fs (snd (run_to_prepared (example_env\<lparr>rOverwrite := Submit True\<rparr>) occupied_world))
                 [''home'', ''u'', ''my-app''] = Some Dir)
        \<or> (fst (run_to_prepared (example_env\<lparr>rOverwrite := Submit True\<rparr>) occupied_world)
               = Rejected (ENOTDIR [''home'', ''u'', ''my-app''])
            \<and> fst (run (example_env\<lparr>rOverwrite := Submit True\<rparr>) occupied_world)
               = Rejected (ENOTDIR [''home'', ''u'', ''my-app''])
            \<and> post = []))"
  using overwrite_deletes_before_recreating [of "example_env\<lparr>rOverwrite := Submit True\<rparr>"
      example_typed False "[''home'', ''u'', ''my-app'']" occupied_world
      "fst (run_to_prepared (example_env\<lparr>rOverwrite := Submit True\<rparr>) occupied_world)"
      "snd (run_to_prepared (example_env\<lparr>rOverwrite := Submit True\<rparr>) occupied_world)"
      "fst (run (example_env\<lparr>rOverwrite := Submit True\<rparr>) occupied_world)"
      "snd (run (example_env\<lparr>rOverwrite := Submit True\<rparr>) occupied_world)"]
  by (simp add: example_env_def occupied_world_def example_typed_def trim_def white_space_def path_resolve_def)

section \<open>The run up to the Template Materializer\<close>

lemma yields_prepared:
  assumes ping: "\<And>t. P (PingVersion t)"
    and ask: "\<And>q. P (Ask q)"
    and inf: "\<And>m. P (Info m)" and ex: "\<And>n. P (ProcessExit n)"
    and st: "\<And>p. P (Stat p)" and cl: "P (ConsoleLog [])"
    and rm: "\<And>raw. rName e = Submit raw \<Longrightarrow> P (Rm (path_resolve (cwd e) (trim raw)))"
    and mk: "\<And>p. P (Mkdir p)"
  shows "yields (run_to_prepared e) P
           (\<lambda>(a, n, dir). dir = path_resolve (cwd e) n
               \<and> (\<exists>raw. rName e = Submit raw \<and> n = trim raw)
               \<and> (\<exists>t. rTemplate e = Submit t \<and> pTemplate a = Some t))"
proof -
  let ?Q = "\<lambda>(a, n, dir). dir = path_resolve (cwd e) n
               \<and> (\<exists>raw. rName e = Submit raw \<and> n = trim raw)
               \<and> (\<exists>t. rTemplate e = Submit t \<and> pTemplate a = Some t)"
  have tail: "yields (case pName a of
       None \<Rightarrow> reject TypeError
     | Some n \<Rightarrow>
         (let dir = path_resolve (cwd e) n in
          seq (workspace_preparer e dir) (\<lambda>_. ret (a, n, dir)))) P ?Q"
    if q: "(\<exists>raw. rName e = Submit raw \<and> pName a = Some (trim raw))
               \<and> (\<exists>t. rTemplate e = Submit t \<and> pTemplate a = Some t)
               \<and> (\<exists>i. rInstallDeps e = Submit i \<and> pInstallDeps a = Some i)
               \<and> (\<not> gitInstalled e \<longrightarrow> pGitInit a = None)" for a :: answers
  proof -
    from q obtain raw t where a: "pName a = Some (trim raw)" "rName e = Submit raw"
      "rTemplate e = Submit t" "pTemplate a = Some t"
      by blast
    show ?thesis
      unfolding a(1) option.case Let_def
      by (intro yields_seqT yields_preparer yields_ret)
         (simp_all add: a ask inf ex st cl mk rm[OF a(2)])
  qed
  have "yields (seq (answer_collector e (gitInstalled e)) (\<lambda>a.
     case pName a of
       None \<Rightarrow> reject TypeError
     | Some n \<Rightarrow>
         (let dir = path_resolve (cwd e) n in
          seq (workspace_preparer e dir) (\<lambda>_. ret (a, n, dir))))) P ?Q"
    by (rule yields_seq[OF yields_collector[of P e "gitInstalled e"] tail]) (simp_all add: ask inf ex)
  then show ?thesis
    unfolding run_to_prepared_def
    by (intro yields_seq[OF yields_probe[of P e, OF ping]]) auto
qed

lemma materializer_run:
  assumes "pTemplate a = Some t" and "process e (clone_command t) dir (fs w) = (code, f')"
  shows "template_materializer e a dir w =
     (if code = 0 then Done () else Rejected (ExecError (clone_command t) code),
      w\<lparr>fs := f', trace := trace w @ [StepBegin ''Cloning template repository...'',
            Exec (clone_command t) dir, StepEnd ''Cloning template repository...'' (code = 0)]\<rparr>)"
  using assms
  by (simp add: template_materializer_def runPromiseStep_def exec_def emit_def)

lemma after_materializer_yields:
  "yields (seq (manifest_patcher e n dir) (\<lambda>_.
           seq (optional_initializers e a dir) (\<lambda>_. reporter e a n)))
     (\<lambda>_. True) (\<lambda>_. True)"
  by (intro yields_seqT yields_patcher yields_initializers yields_reporter TrueI)

lemma yields_to_clone:
  assumes ping: "\<And>t. P (PingVersion t)"
    and ask: "\<And>q. P (Ask q)"
    and inf: "\<And>m. P (Info m)" and ex: "\<And>n. P (ProcessExit n)"
    and st: "\<And>p. P (Stat p)" and cl: "P (ConsoleLog [])"
    and rm: "\<And>raw. rName e = Submit raw \<Longrightarrow> P (Rm (path_resolve (cwd e) (trim raw)))"
    and mk: "\<And>p. P (Mkdir p)"
    and sb: "P (StepBegin ''Cloning template repository...'')"
    and se: "\<And>b. P (StepEnd ''Cloning template repository...'' b)"
    and clone: "\<And>t d. P (Exec (clone_command t) d)"
  shows "yields (run_to_clone e) P
           (\<lambda>(a, n, dir). dir = path_resolve (cwd e) n
               \<and> (\<exists>raw. rName e = Submit raw \<and> n = trim raw)
               \<and> (\<exists>t. rTemplate e = Submit t \<and> pTemplate a = Some t))"
  unfolding run_to_clone_def
proof (rule yields_seq[OF yields_prepared[of P e, OF ping ask inf ex st cl rm mk]], goal_cases)
  case (2 x)
  obtain a n dir where x: "x = (a, n, dir)" by (cases x)
  from 2 show ?case unfolding x prod.case
    by (intro yields_seqT yields_materializer yields_ret sb se clone) simp_all
qed

lemma run_from_clone:
  assumes "run_to_clone e w = (Done (a, n, dir), w1)"
  shows "run e w = seq (manifest_patcher e n dir) (\<lambda>_.
           seq (optional_initializers e a dir) (\<lambda>_. reporter e a n)) w1"
  using assms by (simp add: run_split_clone seq_def[of "run_to_clone e"])

lemma finish_yields:
  assumes "\<And>m. P (StepBegin m)" "\<And>m b. P (StepEnd m b)" "\<And>c d. P (Exec c d)"
    "\<And>m. P (Info m)" "\<And>m. P (Ready m)" "\<And>n. P (ProcessExit n)"
  shows "yields (seq (optional_initializers e a dir) (\<lambda>_. reporter e a n)) P (\<lambda>_. True)"
  by (intro yields_seqT yields_initializers yields_reporter assms)

lemma clone_Done_shape:
  assumes "run_to_clone e w = (Done (a, n, dir), w1)"
  shows "\<exists>w0 t. run_to_prepared e w = (Done (a, n, dir), w0) \<and> pTemplate a = Some t
           \<and> fst (process e (clone_command t) dir (fs w0)) = 0
           \<and> trace w1 = trace w0 @ [StepBegin ''Cloning template repository...'',
                 Exec (clone_command t) dir, StepEnd ''Cloning template repository...'' True]"
proof -
  obtain r0 w0 where p: "run_to_prepared e w = (r0, w0)" by (cases "run_to_prepared e w")
  from assms p obtain x where r0: "r0 = Done x"
    by (cases r0) (simp_all add: run_to_clone_def seq_def[of "run_to_prepared e"])
  obtain a' n' dir' where x: "x = (a', n', dir')" by (cases x)
  from assms p r0 x have m: "seq (template_materializer e a' dir') (\<lambda>_. ret (a', n', dir')) w0
       = (Done (a, n, dir), w1)"
    by (simp add: run_to_clone_def seq_def[of "run_to_prepared e"])
  obtain rm wm where tm: "template_materializer e a' dir' w0 = (rm, wm)"
    by (cases "template_materializer e a' dir' w0")
  from m tm have eq: "a' = a" "n' = n" "dir' = dir" and rmD: "rm = Done ()" and wm: "wm = w1"
    by (cases rm; simp add: seq_def[of "template_materializer e a' dir'"] ret_def)+
  show ?thesis
  proof (cases "pTemplate a")
    case None
    with tm eq rmD show ?thesis
      by (simp add: template_materializer_def runPromiseStep_def reject_def)
  next
    case (Some t)
    obtain code f' where pr: "process e (clone_command t) dir (fs w0) = (code, f')"
      by (cases "process e (clone_command t) dir (fs w0)")
    from materializer_run[OF Some pr] tm eq rmD wm have c0: "code = 0"
      and t1: "trace w1 = trace w0 @ [StepBegin ''Cloning template repository...'',
                 Exec (clone_command t) dir, StepEnd ''Cloning template repository...'' True]"
      by (auto split: if_splits)
    from p r0 x eq have "run_to_prepared e w = (Done (a, n, dir), w0)" by simp
    with Some pr c0 t1 show ?thesis by (intro exI[of _ w0] exI[of _ t]) simp
  qed
qed

text \<open>The concrete run, evaluated.\<close>

lemmas step_defs = seq_def ret_def reject_def emit_def info_def ready_def console_log_def
  process_exit_def stat_or_null_def rm_recursive_def mkdir_recursive_def readFile_def
  writeFile_def promise_all2_def exec_def runPromiseStep_def pingVersion_def
  capability_probe_def cancelled_def ask_def answer_collector_def workspace_preparer_def
  template_materializer_def manifest_patcher_def optional_initializers_def reporter_def
  is_file_def

lemmas example_defs = example_env_def example_world_def example_fs_def example_process_def
  example_answers_def example_typed_def trim_def white_space_def path_resolve_def clone_command_def templates_def Let_def

lemma pair_of_fst: "fst p = x \<Longrightarrow> p = (x, snd p)"
  by auto

lemma trim_strips_unicode_space:
  "trim ([CHR 0xC2, CHR 0xA0] @ ''my app'' @ [CHR 0xE2, CHR 0x80, CHR 0xA8, CHR 0x09]) = ''my app''"
  by (simp add: trim_def white_space_def)

lemma trim_example: "trim example_typed = ''my-app''"
  by (simp add: example_typed_def trim_def white_space_def)

lemma example_prepared:
  "fst (run_to_prepared (example_env\<lparr>process := pr\<rparr>) example_world)
     = Done (example_answers, ''my-app'', [''home'', ''u'', ''my-app''])"
  by (simp add: run_to_prepared_def step_defs example_defs)

lemma example_cloned:
  "fst (run_to_clone example_env example_world)
     = Done (example_answers, ''my-app'', [''home'', ''u'', ''my-app''])"
  by (simp add: run_to_clone_def run_to_prepared_def step_defs example_defs)

lemma example_cloned_manifest:
  "fs (snd (run_to_clone example_env example_world))
      (path_resolve [''home'', ''u'', ''my-app''] ''package.json'') = Some (File example_manifest)"
  by (simp add: run_to_clone_def run_to_prepared_def step_defs example_defs)

lemma example_parse:
  "JSON_parse example_env example_manifest =
     Some (JObject [(''name'', JString ''lithia-template''), (''version'', JString ''9.9.9''),
              (''description'', JString ''A template''), (''private'', JBool True)])"
  by (simp add: example_env_def example_parsed_def)

lemma example_run_exit: "fst (run example_env example_world) = Exited 0"
  by (simp add: run_def step_defs example_defs example_parsed_def)

lemma example_failed_clone_process:
  "process (example_env\<lparr>process := (\<lambda>cmd dir f. (128, f))\<rparr>) (clone_command (templates ! 0))
      [''home'', ''u'', ''my-app'']
      (fs (snd (run_to_prepared (example_env\<lparr>process := (\<lambda>cmd dir f. (128, f))\<rparr>) example_world)))
    = (128, fs (snd (run_to_prepared (example_env\<lparr>process := (\<lambda>cmd dir f. (128, f))\<rparr>) example_world)))"
  by (simp add: example_env_def)

section \<open>The Template Materializer\<close>

text \<open>
  Claim C5. When the run reaches the Template Materializer with a chosen template
  \<open>t\<close>, the next thing it executes, and the first command of the run, is
  \<^verbatim>\<open>git clone --branch <branch> <url> .\<close> for the branch and the URL of \<open>t\<close>, with the
  Workspace (the project name resolved against the current directory) as the working
  directory. When that command exits with a non-zero status, the run rejects with the
  command's error, the trace ends with the indicator of the failed step, so that the
  command is not run again and no later step runs, and the disk is as the command left it.
\<close>

theorem clone_invocation_and_failure:
  assumes "run_to_prepared e w = (Done (a, n, dir), w0)"
    and "pTemplate a = Some t"
    and "process e (clone_command t) dir (fs w0) = (code, f')"
    and "run e w = (r, w')"
  shows "clone_command t = ''git clone --branch '' @ branch t @ '' '' @ url t @ '' .''
       \<and> dir = path_resolve (cwd e) n \<and> rTemplate e = Submit t
       \<and> (\<exists>pre. trace w0 = trace w @ pre \<and> list_all (\<lambda>x. \<forall>c d. x \<noteq> Exec c d) pre)
       \<and> (\<exists>post. trace w' = trace w0 @ [StepBegin ''Cloning template repository...'',
                 Exec (clone_command t) dir, StepEnd ''Cloning template repository...'' (code = 0)] @ post
             \<and> (code \<noteq> 0 \<longrightarrow> post = [] \<and> r = Rejected (ExecError (clone_command t) code)
                   \<and> fs w' = f'))"
proof -
  have "yields (run_to_prepared e) (\<lambda>x. \<forall>c d. x \<noteq> Exec c d)
           (\<lambda>(a, n, dir). dir = path_resolve (cwd e) n
               \<and> (\<exists>raw. rName e = Submit raw \<and> n = trim raw)
               \<and> (\<exists>t. rTemplate e = Submit t \<and> pTemplate a = Some t))"
    by (rule yields_prepared) simp_all
  note y = yieldsD[OF this assms(1)]
  from y[THEN conjunct1] have pre: "\<exists>pre. trace w0 = trace w @ pre \<and> list_all (\<lambda>x. \<forall>c d. x \<noteq> Exec c d) pre" .
  from y[THEN conjunct2] have q: "dir = path_resolve (cwd e) n \<and> (\<exists>t. rTemplate e = Submit t \<and> pTemplate a = Some t)"
    by simp
  with assms(2) have dir: "dir = path_resolve (cwd e) n" and t: "rTemplate e = Submit t" by auto
  let ?w1 = "w0\<lparr>fs := f', trace := trace w0 @ [StepBegin ''Cloning template repository...'',
            Exec (clone_command t) dir, StepEnd ''Cloning template repository...'' (code = 0)]\<rparr>"
  have run: "run e w = seq (template_materializer e a dir) (\<lambda>_.
           seq (manifest_patcher e n dir) (\<lambda>_.
           seq (optional_initializers e a dir) (\<lambda>_. reporter e a n))) w0"
    using assms(1) by (simp add: run_split_prepared seq_def[of "run_to_prepared e"])
  have post: "\<exists>post. trace w' = trace w0 @ [StepBegin ''Cloning template repository...'',
                 Exec (clone_command t) dir, StepEnd ''Cloning template repository...'' (code = 0)] @ post
             \<and> (code \<noteq> 0 \<longrightarrow> post = [] \<and> r = Rejected (ExecError (clone_command t) code)
                   \<and> fs w' = f')"
  proof (cases "code = 0")
    case True
    with run assms(4) have "seq (manifest_patcher e n dir) (\<lambda>_.
           seq (optional_initializers e a dir) (\<lambda>_. reporter e a n)) ?w1 = (r, w')"
      by (simp add: seq_def[of "template_materializer e a dir"] materializer_run[OF assms(2,3)])
    from yieldsD[OF after_materializer_yields this, THEN conjunct1]
    obtain post where "trace w' = trace ?w1 @ post" by (elim exE conjE)
    with True show ?thesis by simp
  next
    case False
    with run assms(4) have "r = Rejected (ExecError (clone_command t) code)" "w' = ?w1"
      by (simp_all add: seq_def[of "template_materializer e a dir"] materializer_run[OF assms(2,3)])
    with False show ?thesis by simp
  qed
  show ?thesis
    by (intro conjI clone_command_def dir t pre post)
qed

theorem clone_invocation_and_failure_witness:
  "fst (run (example_env\<lparr>process := (\<lambda>cmd dir f. (128, f))\<rparr>) example_world)
     = Rejected (ExecError
         ''git clone --branch main https://github.com/lithiajs/lithia-default-app-template.git .'' 128)
   \<and> trace (snd (run (example_env\<lparr>process := (\<lambda>cmd dir f. (128, f))\<rparr>) example_world))
     = trace (snd (run_to_prepared (example_env\<lparr>process := (\<lambda>cmd dir f. (128, f))\<rparr>) example_world))
       @ [StepBegin ''Cloning template repository...'',
          Exec ''git clone --branch main https://github.com/lithiajs/lithia-default-app-template.git .''
            [''home'', ''u'', ''my-app''],
          StepEnd ''Cloning template repository...'' False]"
proof -
  have pt: "pTemplate example_answers = Some (templates ! 0)"
    by (simp add: example_answers_def)
  note t = clone_invocation_and_failure
     [OF pair_of_fst[OF example_prepared] pt example_failed_clone_process pair_of_fst[OF refl]]
  from t[THEN conjunct2, THEN conjunct2, THEN conjunct2, THEN conjunct2] show ?thesis
    by (auto simp: clone_command_def templates_def)
qed

text \<open>
  Claim C6. The trace of every execution splits into a first part and a rest. The first
  part has no event of the Manifest Patcher (no read, no write, not its indicator) and
  no deletion other than the Workspace Preparer's removal of the target directory. The
  rest is empty unless the run up to the Template Materializer returned, which it does
  only when the clone exited with status 0; the first part then ends with the clone and
  the indicator of its success. So the Manifest Patcher's deletions, read and write
  come only after a successful clone, and after a failed clone there are none.
\<close>

theorem patcher_only_after_clone:
  assumes "run e w = (r, w')"
  shows "\<exists>pre post. trace w' = trace w @ pre @ post
           \<and> list_all (\<lambda>x. \<not> patcher_event x) pre
           \<and> (\<forall>p. Rm p \<in> set pre \<longrightarrow>
                 (\<exists>raw. rName e = Submit raw \<and> p = path_resolve (cwd e) (trim raw)))
           \<and> (post = []
               \<or> (\<exists>a n dir w0 w1 t pre'.
                     run_to_prepared e w = (Done (a, n, dir), w0)
                   \<and> fst (process e (clone_command t) dir (fs w0)) = 0
                   \<and> run_to_clone e w = (Done (a, n, dir), w1)
                   \<and> trace w1 = trace w @ pre
                   \<and> pre = pre' @ [Exec (clone_command t) dir,
                                    StepEnd ''Cloning template repository...'' True]))"
proof -
  let ?P = "\<lambda>x. \<not> patcher_event x
              \<and> (\<forall>p. x = Rm p \<longrightarrow> (\<exists>raw. rName e = Submit raw \<and> p = path_resolve (cwd e) (trim raw)))"
  have yc: "yields (run_to_clone e) ?P
           (\<lambda>(a, n, dir). dir = path_resolve (cwd e) n
               \<and> (\<exists>raw. rName e = Submit raw \<and> n = trim raw)
               \<and> (\<exists>t. rTemplate e = Submit t \<and> pTemplate a = Some t))"
    by (rule yields_to_clone) simp_all
  obtain r1 w1 where c: "run_to_clone e w = (r1, w1)" by (cases "run_to_clone e w")
  from yieldsD[OF yc c, THEN conjunct1] obtain pre where
    pre: "trace w1 = trace w @ pre" "list_all ?P pre" by (elim exE conjE)
  from pre(2) have p1: "list_all (\<lambda>x. \<not> patcher_event x) pre"
    and p2: "\<forall>p. Rm p \<in> set pre \<longrightarrow>
                 (\<exists>raw. rName e = Submit raw \<and> p = path_resolve (cwd e) (trim raw))"
    by (simp_all add: list_all_iff)
  show ?thesis
  proof (cases r1)
    case (Done x)
    obtain a n dir where x: "x = (a, n, dir)" by (cases x)
    from c Done x have c': "run_to_clone e w = (Done (a, n, dir), w1)" by simp
    from run_from_clone[OF c'] assms have "seq (manifest_patcher e n dir) (\<lambda>_.
           seq (optional_initializers e a dir) (\<lambda>_. reporter e a n)) w1 = (r, w')" by simp
    from yieldsD[OF after_materializer_yields this, THEN conjunct1]
    obtain post where post: "trace w' = trace w1 @ post" by (elim exE conjE)
    from clone_Done_shape[OF c'] obtain w0 t where
      p0: "run_to_prepared e w = (Done (a, n, dir), w0)"
      and code: "fst (process e (clone_command t) dir (fs w0)) = 0"
      and t1: "trace w1 = trace w0 @ [StepBegin ''Cloning template repository...'',
                 Exec (clone_command t) dir, StepEnd ''Cloning template repository...'' True]"
      by (elim exE conjE)
    have "yields (run_to_prepared e) (\<lambda>_. True)
           (\<lambda>(a, n, dir). dir = path_resolve (cwd e) n
               \<and> (\<exists>raw. rName e = Submit raw \<and> n = trim raw)
               \<and> (\<exists>t. rTemplate e = Submit t \<and> pTemplate a = Some t))"
      by (rule yields_prepared) simp_all
    from yieldsD[OF this p0, THEN conjunct1] obtain pre0 where
      pre0: "trace w0 = trace w @ pre0" by (elim exE conjE)
    from pre(1) t1 pre0 have shape: "pre = (pre0 @ [StepBegin ''Cloning template repository...''])
         @ [Exec (clone_command t) dir, StepEnd ''Cloning template repository...'' True]"
      by simp
    have tr: "trace w' = trace w @ pre @ post" using post pre(1) by simp
    have "\<exists>a n dir w0 w1 t pre'.
                     run_to_prepared e w = (Done (a, n, dir), w0)
                   \<and> fst (process e (clone_command t) dir (fs w0)) = 0
                   \<and> run_to_clone e w = (Done (a, n, dir), w1)
                   \<and> trace w1 = trace w @ pre
                   \<and> pre = pre' @ [Exec (clone_command t) dir,
                                    StepEnd ''Cloning template repository...'' True]"
      using p0 code c' pre(1) shape
      by (intro exI[of _ a] exI[of _ n] exI[of _ dir] exI[of _ w0] exI[of _ w1] exI[of _ t]
            exI[of _ "pre0 @ [StepBegin ''Cloning template repository...'']"] conjI)
    then have d: "post = []
               \<or> (\<exists>a n dir w0 w1 t pre'.
                     run_to_prepared e w = (Done (a, n, dir), w0)
                   \<and> fst (process e (clone_command t) dir (fs w0)) = 0
                   \<and> run_to_clone e w = (Done (a, n, dir), w1)
                   \<and> trace w1 = trace w @ pre
                   \<and> pre = pre' @ [Exec (clone_command t) dir,
                                    StepEnd ''Cloning template repository...'' True])"
      by (rule disjI2)
    show ?thesis
      by (rule exI[of _ pre], rule exI[of _ post]) (intro conjI tr p1 p2 d)
  next
    case (Exited k)
    with c assms have "w' = w1"
      by (simp add: run_split_clone seq_def[of "run_to_clone e"])
    with pre(1) have tr: "trace w' = trace w @ pre @ []" by simp
    show ?thesis
      by (rule exI[of _ pre], rule exI[of _ "[]"]) (intro conjI tr p1 p2 disjI1 refl)
  next
    case (Rejected err)
    with c assms have "w' = w1"
      by (simp add: run_split_clone seq_def[of "run_to_clone e"])
    with pre(1) have tr: "trace w' = trace w @ pre @ []" by simp
    show ?thesis
      by (rule exI[of _ pre], rule exI[of _ "[]"]) (intro conjI tr p1 p2 disjI1 refl)
  qed
qed

theorem patcher_only_after_clone_witness:
  "\<exists>pre post. trace (snd (run example_env example_world)) = trace example_world @ pre @ post
     \<and> list_all (\<lambda>x. \<not> patcher_event x) pre
     \<and> (\<forall>p. Rm p \<in> set pre \<longrightarrow>
           (\<exists>raw. rName example_env = Submit raw
                \<and> p = path_resolve (cwd example_env) (trim raw)))
     \<and> (post = []
         \<or> (\<exists>a n dir w0 w1 t pre'.
               run_to_prepared example_env example_world = (Done (a, n, dir), w0)
             \<and> fst (process example_env (clone_command t) dir (fs w0)) = 0
             \<and> run_to_clone example_env example_world = (Done (a, n, dir), w1)
             \<and> trace w1 = trace example_world @ pre
             \<and> pre = pre' @ [Exec (clone_command t) dir,
                              StepEnd ''Cloning template repository...'' True]))"
  by (rule patcher_only_after_clone[OF pair_of_fst[OF refl]])

section \<open>The Manifest Patcher\<close>

lemma path_resolve_git: "path_resolve dir ''.git'' = dir @ [''.git'']"
  by (simp add: path_resolve_def)

lemma path_resolve_lock: "path_resolve dir ''package-lock.json'' = dir @ [''package-lock.json'']"
  by (simp add: path_resolve_def)

lemma path_resolve_manifest: "path_resolve dir ''package.json'' = dir @ [''package.json'']"
  by (simp add: path_resolve_def)

lemma not_prefix_child: "\<not> prefix (d @ [x]) d"
  by (auto dest: prefix_length_le)

lemma get_prop_set_same: "get_prop k (set_prop k v ps) = Some v"
  by (induction ps) (auto simp: get_prop_def)

lemma get_prop_set_other: "k' \<noteq> k \<Longrightarrow> get_prop k' (set_prop k v ps) = get_prop k' ps"
  by (induction ps) (auto simp: get_prop_def)

lemma get_prop_delete_same: "get_prop k (delete_prop k ps) = None"
  by (induction ps) (auto simp: get_prop_def delete_prop_def)

lemma get_prop_delete_other: "k' \<noteq> k \<Longrightarrow> get_prop k' (delete_prop k ps) = get_prop k' ps"
  by (induction ps) (auto simp: get_prop_def delete_prop_def)

lemma filter_set_prop:
  "\<not> K k \<Longrightarrow> filter (\<lambda>p. K (fst p)) (set_prop k v ps) = filter (\<lambda>p. K (fst p)) ps"
  by (induction ps) auto

lemma filter_delete_prop:
  "\<not> K k \<Longrightarrow> filter (\<lambda>p. K (fst p)) (delete_prop k ps) = filter (\<lambda>p. K (fst p)) ps"
  by (induction ps) (auto simp: delete_prop_def)

lemma get_prop_Some_not_Nil: "get_prop k ps = Some v \<Longrightarrow> ps \<noteq> []"
  by (auto simp: get_prop_def)

lemma stringify_object_two_spaces:
  "ps \<noteq> [] \<Longrightarrow>
   JSON_stringify (JObject ps) 2 =
     ''{'' @ [CHR 0x0A] @ ''  ''
       @ join ('','' @ [CHR 0x0A] @ ''  '')
           (map (\<lambda>p. quote (fst p) @ '': '' @ serialize ''  '' ''  '' (snd p)) ps)
       @ [CHR 0x0A] @ ''}''"
  by (simp add: JSON_stringify_def numeral_2_eq_2)

lemma rm_run:
  "fs w p \<noteq> None \<Longrightarrow>
   rm_recursive p w = (Done (), w\<lparr>fs := (\<lambda>q. if prefix p q then None else fs w q),
                                   trace := trace w @ [Rm p]\<rparr>)"
  by (auto simp: rm_recursive_def emit_def)

lemma rm_missing:
  "fs w p = None \<Longrightarrow> rm_recursive p w = (Rejected (ENOENT p), w\<lparr>trace := trace w @ [Rm p]\<rparr>)"
  by (simp add: rm_recursive_def emit_def)

lemma deletions_run:
  assumes "fs w (dir @ [''.git'']) \<noteq> None" and "fs w (dir @ [''package-lock.json'']) \<noteq> None"
  shows "promise_all2 e (rm_recursive (dir @ [''.git''])) (rm_recursive (dir @ [''package-lock.json''])) w
     = (Done (), w\<lparr>fs := (\<lambda>q. if prefix (dir @ [''package-lock.json'']) q then None
                               else if prefix (dir @ [''.git'']) q then None else fs w q),
                    trace := trace w @ [Rm (dir @ [''.git'']), Rm (dir @ [''package-lock.json''])]\<rparr>)"
proof -
  let ?w1 = "w\<lparr>fs := (\<lambda>q. if prefix (dir @ [''.git'']) q then None else fs w q),
               trace := trace w @ [Rm (dir @ [''.git''])]\<rparr>"
  have 1: "rm_recursive (dir @ [''.git'']) w = (Done (), ?w1)" by (rule rm_run[OF assms(1)])
  have "fs ?w1 (dir @ [''package-lock.json'']) \<noteq> None" using assms(2) by simp
  from rm_run[OF this] have 2: "rm_recursive (dir @ [''package-lock.json'']) ?w1 =
     (Done (), w\<lparr>fs := (\<lambda>q. if prefix (dir @ [''package-lock.json'']) q then None
                               else if prefix (dir @ [''.git'']) q then None else fs w q),
                    trace := trace w @ [Rm (dir @ [''.git'']), Rm (dir @ [''package-lock.json''])]\<rparr>)"
    by (simp cong del: if_weak_cong)
  show ?thesis by (simp add: promise_all2_def 1 2)
qed

lemma deletions_missing:
  assumes "fs w (dir @ [''.git'']) = None \<or> fs w (dir @ [''package-lock.json'']) = None"
  shows "\<exists>p w'. promise_all2 e (rm_recursive (dir @ [''.git''])) (rm_recursive (dir @ [''package-lock.json''])) w
     = (Rejected (ENOENT p), w')
     \<and> (p = dir @ [''.git''] \<or> p = dir @ [''package-lock.json'']) \<and> fs w p = None
     \<and> trace w' = trace w @ [Rm (dir @ [''.git'']), Rm (dir @ [''package-lock.json''])]"
proof (cases "fs w (dir @ [''.git''])")
  case None
  let ?w1 = "w\<lparr>trace := trace w @ [Rm (dir @ [''.git''])]\<rparr>"
  have 1: "rm_recursive (dir @ [''.git'']) w = (Rejected (ENOENT (dir @ [''.git''])), ?w1)"
    by (rule rm_missing[OF None])
  obtain r2 w2 where 2: "rm_recursive (dir @ [''package-lock.json'']) ?w1 = (r2, w2)"
    by (cases "rm_recursive (dir @ [''package-lock.json'']) ?w1")
  then have t2: "trace w2 = trace w @ [Rm (dir @ [''.git'']), Rm (dir @ [''package-lock.json''])]"
    by (auto simp: rm_recursive_def emit_def split: option.splits)
  obtain w' where "promise_all2 e (rm_recursive (dir @ [''.git'']))
        (rm_recursive (dir @ [''package-lock.json''])) w = (Rejected (ENOENT (dir @ [''.git''])), w')"
    and "trace w' = trace w2"
    by (cases r2) (simp_all add: promise_all2_def 1 2)
  with None t2 show ?thesis by simp
next
  case (Some y)
  with assms have l: "fs w (dir @ [''package-lock.json'']) = None" by simp
  let ?w1 = "w\<lparr>fs := (\<lambda>q. if prefix (dir @ [''.git'']) q then None else fs w q),
               trace := trace w @ [Rm (dir @ [''.git''])]\<rparr>"
  have 1: "rm_recursive (dir @ [''.git'']) w = (Done (), ?w1)" using Some by (intro rm_run) simp
  have "fs ?w1 (dir @ [''package-lock.json'']) = None" using l by simp
  from rm_missing[OF this] l show ?thesis by (simp add: promise_all2_def 1)
qed

lemma patcher_missing:
  assumes "fs w (dir @ [''.git'']) = None \<or> fs w (dir @ [''package-lock.json'']) = None"
  shows "\<exists>p w'. manifest_patcher e n dir w = (Rejected (ENOENT p), w')
     \<and> (p = dir @ [''.git''] \<or> p = dir @ [''package-lock.json'']) \<and> fs w p = None
     \<and> trace w' = trace w @ [StepBegin ''Preparing workspace...'', Rm (dir @ [''.git'']),
           Rm (dir @ [''package-lock.json'']), StepEnd ''Preparing workspace...'' False]"
proof -
  let ?w0 = "emit (StepBegin ''Preparing workspace...'') w"
  have "fs ?w0 (dir @ [''.git'']) = None \<or> fs ?w0 (dir @ [''package-lock.json'']) = None"
    using assms by (simp add: emit_def)
  from deletions_missing[where e = e, OF this] obtain p w1 where
    d: "promise_all2 e (rm_recursive (dir @ [''.git''])) (rm_recursive (dir @ [''package-lock.json''])) ?w0
         = (Rejected (ENOENT p), w1)"
    and p: "p = dir @ [''.git''] \<or> p = dir @ [''package-lock.json'']" "fs ?w0 p = None"
    and t: "trace w1 = trace ?w0 @ [Rm (dir @ [''.git'']), Rm (dir @ [''package-lock.json''])]"
    by (elim exE conjE)
  have "manifest_patcher e n dir w =
          (Rejected (ENOENT p), emit (StepEnd ''Preparing workspace...'' False) w1)"
    by (simp add: manifest_patcher_def runPromiseStep_def path_resolve_git path_resolve_lock
          seq_def[of "promise_all2 _ _ _"] d)
  moreover have "trace (emit (StepEnd ''Preparing workspace...'' False) w1) =
        trace w @ [StepBegin ''Preparing workspace...'', Rm (dir @ [''.git'']),
           Rm (dir @ [''package-lock.json'']), StepEnd ''Preparing workspace...'' False]"
    using t by (simp add: emit_def)
  moreover have "fs w p = None" using p(2) by (simp add: emit_def)
  ultimately show ?thesis using p(1) by (intro exI conjI) 
qed

lemma patcher_outcome:
  assumes m: "fs w (dir @ [''package.json'']) = Some (File data)"
    and j: "JSON_parse e data = Some (JObject ps)"
    and run: "manifest_patcher e n dir w = (r, w')"
  shows "(r = Done () \<and> trace w' = trace w @ [StepBegin ''Preparing workspace...'',
            Rm (dir @ [''.git'']), Rm (dir @ [''package-lock.json'']),
            ReadFile (dir @ [''package.json'']),
            WriteFile (dir @ [''package.json'']) (JSON_stringify (JObject (patched n ps)) 2),
            StepEnd ''Preparing workspace...'' True]
          \<and> fs w' (dir @ [''package.json'']) = Some (File (JSON_stringify (JObject (patched n ps)) 2)))
       \<or> (\<exists>err. r = Rejected err)"
proof (cases "fs w (dir @ [''.git'']) = None \<or> fs w (dir @ [''package-lock.json'']) = None")
  case True
  from patcher_missing[OF this, of e n] run show ?thesis by auto
next
  case False
  let ?w0 = "emit (StepBegin ''Preparing workspace...'') w"
  let ?f1 = "\<lambda>q. if prefix (dir @ [''package-lock.json'']) q then None
                               else if prefix (dir @ [''.git'']) q then None else fs w q"
  let ?w1 = "w\<lparr>fs := ?f1,
                trace := trace w @ [StepBegin ''Preparing workspace...'', Rm (dir @ [''.git'']),
                     Rm (dir @ [''package-lock.json''])]\<rparr>"
  let ?c = "JSON_stringify (JObject (patched n ps)) 2"
  from False have "fs ?w0 (dir @ [''.git'']) \<noteq> None" "fs ?w0 (dir @ [''package-lock.json'']) \<noteq> None"
    by (simp_all add: emit_def)
  from deletions_run[OF this]
  have d: "promise_all2 e (rm_recursive (dir @ [''.git''])) (rm_recursive (dir @ [''package-lock.json''])) ?w0
           = (Done (), ?w1)"
    by (simp add: emit_def cong del: if_weak_cong)
  have f1m: "?f1 (dir @ [''package.json'']) = Some (File data)" using m by simp
  have f1d: "?f1 dir = fs w dir" by (simp add: not_prefix_child)
  have rd: "readFile (dir @ [''package.json'']) ?w1 =
       (Done data, ?w1\<lparr>trace := trace ?w1 @ [ReadFile (dir @ [''package.json''])]\<rparr>)"
    using f1m by (simp add: readFile_def emit_def)
  let ?w2 = "?w1\<lparr>trace := trace ?w1 @ [ReadFile (dir @ [''package.json''])]\<rparr>"
  have body: "seq (promise_all2 e (rm_recursive (path_resolve dir ''.git''))
                          (rm_recursive (path_resolve dir ''package-lock.json''))) (\<lambda>_.
        seq (readFile (path_resolve dir ''package.json'')) (\<lambda>data.
        case JSON_parse e data of
          None \<Rightarrow> reject SyntaxError
        | Some pJson \<Rightarrow>
            (case patch_manifest n pJson of
               Inl err \<Rightarrow> reject err
             | Inr pJson' \<Rightarrow>
                 writeFile (path_resolve dir ''package.json'') (JSON_stringify pJson' 2)))) ?w0
      = writeFile (dir @ [''package.json'']) ?c ?w2"
    by (simp add: path_resolve_git path_resolve_lock path_resolve_manifest
          seq_def[of "promise_all2 _ _ _"] d seq_def[of "readFile _"] rd j patched_def)
  have pre: "(r, w') = (case writeFile (dir @ [''package.json'']) ?c ?w2 of
         (Done x, v) \<Rightarrow> (Done x, emit (StepEnd ''Preparing workspace...'' True) v)
       | (Exited k, v) \<Rightarrow> (Exited k, v)
       | (Rejected err, v) \<Rightarrow> (Rejected err, emit (StepEnd ''Preparing workspace...'' False) v))"
    using run body by (simp add: manifest_patcher_def runPromiseStep_def)
  have nd: "\<not> (dir @ [''package.json''] = [] \<or> fs ?w2 (dir @ [''package.json'']) = Some Dir)"
    using f1m by simp
  have par: "fs ?w2 (butlast (dir @ [''package.json''])) = fs w dir"
    using f1d by simp
  show ?thesis
  proof (cases "fs w dir")
    case None
    have "writeFile (dir @ [''package.json'']) ?c ?w2 =
        (Rejected (ENOENT (dir @ [''package.json''])), emit (WriteFile (dir @ [''package.json'']) ?c) ?w2)"
      unfolding writeFile_def if_not_P[OF nd] par None by simp
    with pre show ?thesis by simp
  next
    case (Some nd')
    show ?thesis
    proof (cases nd')
      case Dir
      have "writeFile (dir @ [''package.json'']) ?c ?w2 =
        (Done (), (emit (WriteFile (dir @ [''package.json'']) ?c) ?w2)
                        \<lparr>fs := (fs ?w2)(dir @ [''package.json''] \<mapsto> File ?c)\<rparr>)"
        unfolding writeFile_def if_not_P[OF nd] par Some Dir by simp
      with pre show ?thesis by (simp add: emit_def)
    next
      case (File x)
      have "writeFile (dir @ [''package.json'']) ?c ?w2 =
        (Rejected (ENOTDIR (dir @ [''package.json''])), emit (WriteFile (dir @ [''package.json'']) ?c) ?w2)"
        unfolding writeFile_def if_not_P[OF nd] par Some File by simp
      with pre show ?thesis by simp
    qed
  qed
qed

text \<open>
  Claim C10. When, after a successful clone, the Workspace has no
  \<^verbatim>\<open>package-lock.json\<close> or no \<^verbatim>\<open>.git\<close>, the run rejects with the ENOENT error of a
  deletion of a missing path, and the trace ends with the two deletions and the indicator
  of the failed step: the manifest is neither read nor written.
\<close>

theorem missing_lockfile_or_git_aborts:
  assumes "run_to_clone e w = (Done (a, n, dir), w1)"
    and "fs w1 (path_resolve dir ''package-lock.json'') = None
         \<or> fs w1 (path_resolve dir ''.git'') = None"
    and "run e w = (r, w')"
  shows "(\<exists>p. r = Rejected (ENOENT p) \<and> fs w1 p = None
            \<and> (p = path_resolve dir ''.git'' \<or> p = path_resolve dir ''package-lock.json''))
       \<and> trace w' = trace w1 @ [StepBegin ''Preparing workspace...'',
            Rm (path_resolve dir ''.git''), Rm (path_resolve dir ''package-lock.json''),
            StepEnd ''Preparing workspace...'' False]"
proof -
  from assms(2) have "fs w1 (dir @ [''.git'']) = None \<or> fs w1 (dir @ [''package-lock.json'']) = None"
    by (auto simp: path_resolve_git path_resolve_lock)
  from patcher_missing[OF this, of e n] obtain p w2 where
    m: "manifest_patcher e n dir w1 = (Rejected (ENOENT p), w2)"
    and p: "p = dir @ [''.git''] \<or> p = dir @ [''package-lock.json'']" "fs w1 p = None"
    and t: "trace w2 = trace w1 @ [StepBegin ''Preparing workspace...'', Rm (dir @ [''.git'']),
           Rm (dir @ [''package-lock.json'']), StepEnd ''Preparing workspace...'' False]"
    by (elim exE conjE)
  from run_from_clone[OF assms(1)] assms(3) m have "r = Rejected (ENOENT p)" "w' = w2"
    by (simp_all add: seq_def[of "manifest_patcher e n dir"])
  with p t show ?thesis
    by (simp add: path_resolve_git path_resolve_lock)
qed

theorem missing_lockfile_or_git_aborts_witness:
  "(\<exists>p. fst (run (example_env\<lparr>process := (\<lambda>cmd dir f. (0, f))\<rparr>) example_world)
           = Rejected (ENOENT p)
       \<and> fs (snd (run_to_clone (example_env\<lparr>process := (\<lambda>cmd dir f. (0, f))\<rparr>) example_world)) p
           = None
       \<and> (p = path_resolve [''home'', ''u'', ''my-app''] ''.git''
            \<or> p = path_resolve [''home'', ''u'', ''my-app''] ''package-lock.json''))
   \<and> trace (snd (run (example_env\<lparr>process := (\<lambda>cmd dir f. (0, f))\<rparr>) example_world))
     = trace (snd (run_to_clone (example_env\<lparr>process := (\<lambda>cmd dir f. (0, f))\<rparr>) example_world))
       @ [StepBegin ''Preparing workspace...'',
          Rm (path_resolve [''home'', ''u'', ''my-app''] ''.git''),
          Rm (path_resolve [''home'', ''u'', ''my-app''] ''package-lock.json''),
          StepEnd ''Preparing workspace...'' False]"
proof -
  let ?e = "example_env\<lparr>process := (\<lambda>cmd dir f. (0, f))\<rparr>"
  have c: "fst (run_to_clone ?e example_world)
     = Done (example_answers, ''my-app'', [''home'', ''u'', ''my-app''])"
    by (simp add: run_to_clone_def run_to_prepared_def step_defs example_defs)
  have l: "fs (snd (run_to_clone ?e example_world))
             [''home'', ''u'', ''my-app'', ''package-lock.json''] = None"
    by (simp add: run_to_clone_def run_to_prepared_def step_defs example_defs)
  have m: "fs (snd (run_to_clone ?e example_world))
             (path_resolve [''home'', ''u'', ''my-app''] ''package-lock.json'') = None
         \<or> fs (snd (run_to_clone ?e example_world))
             (path_resolve [''home'', ''u'', ''my-app''] ''.git'') = None"
    using l by (simp add: path_resolve_lock)
  show ?thesis
    by (rule missing_lockfile_or_git_aborts[OF pair_of_fst[OF c] m pair_of_fst[OF refl]])
qed

lemma manifest_written:
  assumes c: "run_to_clone e w = (Done (a, n, dir), w1)"
    and m: "fs w1 (path_resolve dir ''package.json'') = Some (File data)"
    and j: "JSON_parse e data = Some (JObject ps)"
    and run: "run e w = (Exited 0, w')"
  shows "(\<exists>raw. rName e = Submit raw \<and> n = trim raw)
       \<and> (\<exists>es. trace w' = trace w @ es
             \<and> WriteFile (path_resolve dir ''package.json'')
                  (JSON_stringify (JObject (patched n ps)) 2) \<in> set es
             \<and> (\<forall>p c. WriteFile p c \<in> set es \<longrightarrow>
                    p = path_resolve dir ''package.json''
                    \<and> c = JSON_stringify (JObject (patched n ps)) 2))"
proof -
  let ?P = "\<lambda>x. \<forall>p c. x \<noteq> WriteFile p c"
  let ?c = "JSON_stringify (JObject (patched n ps)) 2"
  have "yields (run_to_clone e) ?P
           (\<lambda>(a, n, dir). dir = path_resolve (cwd e) n
               \<and> (\<exists>raw. rName e = Submit raw \<and> n = trim raw)
               \<and> (\<exists>t. rTemplate e = Submit t \<and> pTemplate a = Some t))"
    by (rule yields_to_clone) simp_all
  note y = yieldsD[OF this c]
  from y[THEN conjunct1] obtain es1 where es1: "trace w1 = trace w @ es1" "list_all ?P es1"
    by (elim exE conjE)
  from y[THEN conjunct2] have name: "\<exists>raw. rName e = Submit raw \<and> n = trim raw" by simp
  obtain r2 w2 where p: "manifest_patcher e n dir w1 = (r2, w2)"
    by (cases "manifest_patcher e n dir w1")
  from m have m': "fs w1 (dir @ [''package.json'']) = Some (File data)"
    by (simp add: path_resolve_manifest)
  note run' = run_from_clone[OF c]
  have r2: "r2 = Done ()"
  proof (rule ccontr)
    assume "r2 \<noteq> Done ()"
    with patcher_outcome[OF m' j p] obtain err where "r2 = Rejected err" by auto
    with run' run p show False by (simp add: seq_def[of "manifest_patcher e n dir"])
  qed
  with patcher_outcome[OF m' j p]
  have t2: "trace w2 = trace w1 @ [StepBegin ''Preparing workspace...'',
            Rm (dir @ [''.git'']), Rm (dir @ [''package-lock.json'']),
            ReadFile (dir @ [''package.json'']),
            WriteFile (dir @ [''package.json'']) ?c,
            StepEnd ''Preparing workspace...'' True]"
    by simp
  from run' run p r2 have fin: "seq (optional_initializers e a dir) (\<lambda>_. reporter e a n) w2 = (Exited 0, w')"
    by (simp add: seq_def[of "manifest_patcher e n dir"])
  have "yields (seq (optional_initializers e a dir) (\<lambda>_. reporter e a n)) ?P (\<lambda>_. True)"
    by (rule finish_yields) simp_all
  from yieldsD[OF this fin, THEN conjunct1]
  obtain es3 where es3: "trace w' = trace w2 @ es3" "list_all ?P es3"
    by (elim exE conjE)
  let ?es = "es1 @ [StepBegin ''Preparing workspace...'',
            Rm (dir @ [''.git'']), Rm (dir @ [''package-lock.json'']),
            ReadFile (dir @ [''package.json'']),
            WriteFile (dir @ [''package.json'']) ?c,
            StepEnd ''Preparing workspace...'' True] @ es3"
  have 1: "trace w' = trace w @ ?es" using es1(1) t2 es3(1) by simp
  have 2: "WriteFile (path_resolve dir ''package.json'') ?c \<in> set ?es"
    by (simp add: path_resolve_manifest)
  have 3: "\<forall>p c. WriteFile p c \<in> set ?es \<longrightarrow> p = path_resolve dir ''package.json'' \<and> c = ?c"
    using es1(2) es3(2) by (auto simp: list_all_iff path_resolve_manifest)
  from 1 2 3 have "\<exists>es. trace w' = trace w @ es
             \<and> WriteFile (path_resolve dir ''package.json'') ?c \<in> set es
             \<and> (\<forall>p c. WriteFile p c \<in> set es \<longrightarrow>
                    p = path_resolve dir ''package.json'' \<and> c = ?c)"
    by (intro exI[of _ ?es] conjI)
  with name show ?thesis by (rule conjI)
qed

lemma patched_name: "get_prop ''name'' (patched n ps) = Some (JString n)"
  by (simp add: patched_def get_prop_delete_other get_prop_set_other get_prop_set_same)

lemma patched_version: "get_prop ''version'' (patched n ps) = Some (JString ''0.1.0'')"
  by (simp add: patched_def get_prop_delete_other get_prop_set_same)

lemma patched_description: "get_prop ''description'' (patched n ps) = None"
  by (simp add: patched_def get_prop_delete_same)

lemma patched_other:
  "k \<noteq> ''name'' \<Longrightarrow> k \<noteq> ''version'' \<Longrightarrow> k \<noteq> ''description'' \<Longrightarrow>
   get_prop k (patched n ps) = get_prop k ps"
  by (simp add: patched_def get_prop_delete_other get_prop_set_other)

lemma patched_order:
  "filter (\<lambda>p. fst p \<noteq> ''name'' \<and> fst p \<noteq> ''version'' \<and> fst p \<noteq> ''description'') (patched n ps)
   = filter (\<lambda>p. fst p \<noteq> ''name'' \<and> fst p \<noteq> ''version'' \<and> fst p \<noteq> ''description'') ps"
  unfolding patched_def
  by (simp add: filter_delete_prop[where K = "\<lambda>k. k \<noteq> ''name'' \<and> k \<noteq> ''version'' \<and> k \<noteq> ''description''"]
        filter_set_prop[where K = "\<lambda>k. k \<noteq> ''name'' \<and> k \<noteq> ''version'' \<and> k \<noteq> ''description''"])

text \<open>
  Claim C1. When the manifest the clone left parses as an object and the run succeeds,
  the run writes the manifest file exactly once, and what it writes is the serialization
  of an object whose \<^verbatim>\<open>name\<close> is the project name of the answers (the text the user
  submitted, trimmed), whose \<^verbatim>\<open>version\<close> is \<^verbatim>\<open>0.1.0\<close> and which has no
  \<^verbatim>\<open>description\<close>, whatever the parsed object held.
\<close>

theorem manifest_name_version_description:
  assumes "run_to_clone e w = (Done (a, n, dir), w1)"
    and "fs w1 (path_resolve dir ''package.json'') = Some (File data)"
    and "JSON_parse e data = Some (JObject ps)"
    and "run e w = (Exited 0, w')"
  shows "(\<exists>raw. rName e = Submit raw \<and> n = trim raw)
       \<and> (\<exists>es. trace w' = trace w @ es
             \<and> WriteFile (path_resolve dir ''package.json'')
                  (JSON_stringify (JObject (patched n ps)) 2) \<in> set es
             \<and> (\<forall>p c. WriteFile p c \<in> set es \<longrightarrow>
                    p = path_resolve dir ''package.json''
                    \<and> c = JSON_stringify (JObject (patched n ps)) 2))
       \<and> get_prop ''name'' (patched n ps) = Some (JString n)
       \<and> get_prop ''version'' (patched n ps) = Some (JString ''0.1.0'')
       \<and> get_prop ''description'' (patched n ps) = None"
  using manifest_written[OF assms] patched_name[of n ps] patched_version[of n ps]
    patched_description[of n ps]
  by (intro conjI) (elim conjE, assumption)+

theorem manifest_name_version_description_witness:
  "(\<exists>raw. rName example_env = Submit raw \<and> ''my-app'' = trim raw)
   \<and> (\<exists>es. trace (snd (run example_env example_world)) = trace example_world @ es
         \<and> WriteFile (path_resolve [''home'', ''u'', ''my-app''] ''package.json'')
              (JSON_stringify (JObject (patched ''my-app''
                 [(''name'', JString ''lithia-template''), (''version'', JString ''9.9.9''),
                  (''description'', JString ''A template''), (''private'', JBool True)])) 2) \<in> set es
         \<and> (\<forall>p c. WriteFile p c \<in> set es \<longrightarrow>
                p = path_resolve [''home'', ''u'', ''my-app''] ''package.json''
                \<and> c = JSON_stringify (JObject (patched ''my-app''
                 [(''name'', JString ''lithia-template''), (''version'', JString ''9.9.9''),
                  (''description'', JString ''A template''), (''private'', JBool True)])) 2))
   \<and> get_prop ''name'' (patched ''my-app''
                 [(''name'', JString ''lithia-template''), (''version'', JString ''9.9.9''),
                  (''description'', JString ''A template''), (''private'', JBool True)])
        = Some (JString ''my-app'')
   \<and> get_prop ''version'' (patched ''my-app''
                 [(''name'', JString ''lithia-template''), (''version'', JString ''9.9.9''),
                  (''description'', JString ''A template''), (''private'', JBool True)])
        = Some (JString ''0.1.0'')
   \<and> get_prop ''description'' (patched ''my-app''
                 [(''name'', JString ''lithia-template''), (''version'', JString ''9.9.9''),
                  (''description'', JString ''A template''), (''private'', JBool True)]) = None"
  by (rule manifest_name_version_description
        [OF pair_of_fst[OF example_cloned] example_cloned_manifest example_parse
            pair_of_fst[OF example_run_exit]])

text \<open>
  Claim C2. Under the same conditions, every property of the parsed manifest other than
  \<^verbatim>\<open>name\<close>, \<^verbatim>\<open>version\<close> and \<^verbatim>\<open>description\<close> has the same value in the written
  object, these properties keep their order, and the text written puts every top-level
  property on a line of its own behind two spaces (nested values are indented by two
  more spaces per level, the gap of \<^verbatim>\<open>JSON.stringify(pJson, null, 2)\<close>).
\<close>

theorem manifest_other_fields_and_indentation:
  assumes "run_to_clone e w = (Done (a, n, dir), w1)"
    and "fs w1 (path_resolve dir ''package.json'') = Some (File data)"
    and "JSON_parse e data = Some (JObject ps)"
    and "run e w = (Exited 0, w')"
  shows "(\<exists>es. trace w' = trace w @ es
             \<and> WriteFile (path_resolve dir ''package.json'')
                  (JSON_stringify (JObject (patched n ps)) 2) \<in> set es)
       \<and> (\<forall>k. k \<noteq> ''name'' \<and> k \<noteq> ''version'' \<and> k \<noteq> ''description'' \<longrightarrow>
              get_prop k (patched n ps) = get_prop k ps)
       \<and> filter (\<lambda>p. fst p \<noteq> ''name'' \<and> fst p \<noteq> ''version'' \<and> fst p \<noteq> ''description'')
            (patched n ps)
          = filter (\<lambda>p. fst p \<noteq> ''name'' \<and> fst p \<noteq> ''version'' \<and> fst p \<noteq> ''description'') ps
       \<and> JSON_stringify (JObject (patched n ps)) 2 =
            ''{'' @ [CHR 0x0A] @ ''  ''
              @ join ('','' @ [CHR 0x0A] @ ''  '')
                  (map (\<lambda>p. quote (fst p) @ '': '' @ serialize ''  '' ''  '' (snd p)) (patched n ps))
              @ [CHR 0x0A] @ ''}''"
proof -
  from manifest_written[OF assms, THEN conjunct2] obtain es where
    "trace w' = trace w @ es" "WriteFile (path_resolve dir ''package.json'')
                  (JSON_stringify (JObject (patched n ps)) 2) \<in> set es"
    by (elim exE conjE)
  then have 1: "\<exists>es. trace w' = trace w @ es
             \<and> WriteFile (path_resolve dir ''package.json'')
                  (JSON_stringify (JObject (patched n ps)) 2) \<in> set es"
    by (intro exI[of _ es] conjI)
  have 2: "\<forall>k. k \<noteq> ''name'' \<and> k \<noteq> ''version'' \<and> k \<noteq> ''description'' \<longrightarrow>
              get_prop k (patched n ps) = get_prop k ps"
    by (intro allI impI) (elim conjE, rule patched_other)
  have "patched n ps \<noteq> []"
    by (rule get_prop_Some_not_Nil[OF patched_name])
  note 4 = stringify_object_two_spaces[OF this]
  show ?thesis by (intro conjI 1 2 patched_order 4)
qed

theorem manifest_other_fields_and_indentation_witness:
  "get_prop ''private'' (patched ''my-app''
       [(''name'', JString ''lithia-template''), (''version'', JString ''9.9.9''),
        (''description'', JString ''A template''), (''private'', JBool True)]) = Some (JBool True)
   \<and> (\<exists>es. trace (snd (run example_env example_world)) = trace example_world @ es
         \<and> WriteFile [''home'', ''u'', ''my-app'', ''package.json'']
              (''{'' @ [CHR 0x0A] @ ''  '' @ quote ''name'' @ '': '' @ quote ''my-app''
                 @ '','' @ [CHR 0x0A] @ ''  '' @ quote ''version'' @ '': '' @ quote ''0.1.0''
                 @ '','' @ [CHR 0x0A] @ ''  '' @ quote ''private'' @ '': true''
                 @ [CHR 0x0A] @ ''}'') \<in> set es)"
proof -
  note t = manifest_other_fields_and_indentation
        [OF pair_of_fst[OF example_cloned] example_cloned_manifest example_parse
            pair_of_fst[OF example_run_exit]]
  have p: "patched ''my-app''
       [(''name'', JString ''lithia-template''), (''version'', JString ''9.9.9''),
        (''description'', JString ''A template''), (''private'', JBool True)]
     = [(''name'', JString ''my-app''), (''version'', JString ''0.1.0''), (''private'', JBool True)]"
    by (simp add: patched_def delete_prop_def)
  from t[THEN conjunct2, THEN conjunct1] have 1: "get_prop ''private'' (patched ''my-app''
       [(''name'', JString ''lithia-template''), (''version'', JString ''9.9.9''),
        (''description'', JString ''A template''), (''private'', JBool True)]) = Some (JBool True)"
    by (simp add: get_prop_def)
  from t[THEN conjunct1] t[THEN conjunct2, THEN conjunct2, THEN conjunct2]
  have 2: "\<exists>es. trace (snd (run example_env example_world)) = trace example_world @ es
         \<and> WriteFile [''home'', ''u'', ''my-app'', ''package.json'']
              (''{'' @ [CHR 0x0A] @ ''  '' @ quote ''name'' @ '': '' @ quote ''my-app''
                 @ '','' @ [CHR 0x0A] @ ''  '' @ quote ''version'' @ '': '' @ quote ''0.1.0''
                 @ '','' @ [CHR 0x0A] @ ''  '' @ quote ''private'' @ '': true''
                 @ [CHR 0x0A] @ ''}'') \<in> set es"
    by (simp add: p path_resolve_manifest)
  from 1 2 show ?thesis by (rule conjI)
qed

end
